theory Spec2Isabelle
  imports Main
begin

section \<open>JavaScript values, objects and strings\<close>

text \<open>
  The adapter of \<^verbatim>\<open>addon/adapters/firebase-flex.js\<close> works on plain JavaScript values.
  Numbers are the integers (limits and counts are the only numbers the adapter touches).
  An object is the list of its own properties in insertion order.

  The definitions keep the names of the source; a leading underscore is dropped
  (\<^verbatim>\<open>_trackQuery\<close> is \<open>trackQuery\<close>), and an \<^verbatim>\<open>id\<close> is called \<open>ident\<close>.
\<close>

datatype jsval =
    JUndefined
  | JNull
  | JBool bool
  | JNum int
  | JStr string
  | JObj "(string \<times> jsval) list"

type_synonym jsobj = "(string \<times> jsval) list"

datatype js_error = JsError string | JsTypeError string

text \<open>\<^verbatim>\<open>obj.hasOwnProperty(k)\<close> and \<^verbatim>\<open>obj[k] = v\<close>.\<close>

definition hasOwnProperty :: "jsobj \<Rightarrow> string \<Rightarrow> bool" where
  "hasOwnProperty obj k = (case map_of obj k of None \<Rightarrow> False | Some v \<Rightarrow> True)"

fun set_prop :: "jsobj \<Rightarrow> string \<Rightarrow> jsval \<Rightarrow> jsobj" where
  "set_prop [] k v = [(k, v)]"
| "set_prop ((k', v') # ps) k v =
     (if k' = k then (k, v) # ps else (k', v') # set_prop ps k v)"

text \<open>
  \<^verbatim>\<open>assign(target, source)\<close> of ember-platform: every own property of the source is
  written to the target, in the source's order.
\<close>

definition assign :: "jsobj \<Rightarrow> jsobj \<Rightarrow> jsobj" where
  "assign target source = fold (\<lambda>kv t. set_prop t (fst kv) (snd kv)) source target"

text \<open>An optional own property of an object that the model holds as a record field.\<close>

definition present :: "'a option \<Rightarrow> bool" where
  "present x = (case x of None \<Rightarrow> False | Some v \<Rightarrow> True)"

text \<open>Truthiness, as \<^verbatim>\<open>if (x)\<close> and \<^verbatim>\<open>x && y\<close> test it.\<close>

fun truthy :: "jsval \<Rightarrow> bool" where
  "truthy JUndefined = False"
| "truthy JNull = False"
| "truthy (JBool b) = b"
| "truthy (JNum n) = (n \<noteq> 0)"
| "truthy (JStr s) = (s \<noteq> [])"
| "truthy (JObj ps) = True"

text \<open>The string a template literal \<^verbatim>\<open>`${x}`\<close> puts in place of the value.\<close>

fun string_of_nat :: "nat \<Rightarrow> string" where
  "string_of_nat n =
     (if n < 10 then [''0123456789'' ! n]
      else string_of_nat (n div 10) @ [''0123456789'' ! (n mod 10)])"

fun to_string :: "jsval \<Rightarrow> string" where
  "to_string JUndefined = ''undefined''"
| "to_string JNull = ''null''"
| "to_string (JBool b) = (if b then ''true'' else ''false'')"
| "to_string (JNum n) =
     (if n < 0 then ''-'' @ string_of_nat (nat (- n)) else string_of_nat (nat n))"
| "to_string (JStr s) = s"
| "to_string (JObj ps) = ''[object Object]''"

text \<open>
  \<^verbatim>\<open>s.substring(n)\<close>, \<^verbatim>\<open>s.split('/')\<close> (never an empty array: the empty string splits
  into one empty segment) and \<^verbatim>\<open>segments.join('/')\<close>. \<^verbatim>\<open>shift()\<close> and \<^verbatim>\<open>pop()\<close> drop
  the first and the last element and leave an empty array empty, as \<open>tl\<close> and \<open>butlast\<close> do.
\<close>

definition substring :: "string \<Rightarrow> nat \<Rightarrow> string" where
  "substring s n = drop n s"

fun split_on :: "char \<Rightarrow> string \<Rightarrow> string list" where
  "split_on c [] = [[]]"
| "split_on c (x # xs) =
     (if x = c then [] # split_on c xs
      else (case split_on c xs of
              [] \<Rightarrow> [[x]]
            | w # ws \<Rightarrow> (x # w) # ws))"

fun join_with :: "char \<Rightarrow> string list \<Rightarrow> string" where
  "join_with c [] = []"
| "join_with c [w] = w"
| "join_with c (w # v # ws) = w @ c # join_with c (v # ws)"

section \<open>Collaborators and data of the adapter\<close>

text \<open>
  A Firebase reference or query, as far as the adapter observes it: the two strings
  \<^verbatim>\<open>ref.toString()\<close> and \<^verbatim>\<open>ref.root.toString()\<close>, and the ordering and filter operators
  called on it so far, in call order.
\<close>

datatype query_op =
    OrderByKey
  | OrderByValue
  | OrderByChild jsval
  | StartAt jsval
  | EndAt jsval
  | EqualTo jsval
  | LimitToFirst jsval
  | LimitToLast jsval

record fbref =
  ref_toString :: string
  ref_root_toString :: string
  ref_ops :: "query_op list"

definition apply_op :: "fbref \<Rightarrow> query_op \<Rightarrow> fbref" where
  "apply_op r operator = r\<lparr>ref_ops := ref_ops r @ [operator]\<rparr>"

text \<open>A data snapshot delivered by Firebase: \<^verbatim>\<open>snapshot.ref\<close>, \<^verbatim>\<open>.key\<close>, \<^verbatim>\<open>.val()\<close>.\<close>

record fb_snapshot =
  snap_ref :: fbref
  snap_key :: string
  snap_val :: jsval

definition snapshot_exists :: "fb_snapshot \<Rightarrow> bool" where
  "snapshot_exists s = (snap_val s \<noteq> JNull)"

text \<open>
  \<^verbatim>\<open>snapshot.adapterOptions\<close>: the own properties \<^verbatim>\<open>include\<close> (a fanout object) and
  \<^verbatim>\<open>path\<close>, each present or not.
\<close>

record adapter_options =
  ao_include :: "jsobj option"
  ao_path :: "jsval option"

text \<open>The \<^verbatim>\<open>DS.Snapshot\<close> handed to create, update and delete.\<close>

record ds_snapshot =
  snapshot_id :: string
  snapshot_adapterOptions :: "adapter_options option"
  snapshot_attributes :: jsobj

text \<open>The query descriptor: each own property present or not.\<close>

record query_descriptor =
  q_orderBy :: "jsval option"
  q_startAt :: "jsval option"
  q_endAt :: "jsval option"
  q_equalTo :: "jsval option"
  q_limitToFirst :: "jsval option"
  q_limitToLast :: "jsval option"
  q_path :: "jsval option"
  q_isReference :: "jsval option"
  q_cacheId :: "jsval option"

text \<open>
  What the adapter imports or is injected with, and this file does not define:
  \<^verbatim>\<open>camelize\<close> (ember-string), \<^verbatim>\<open>pluralize\<close> (ember-inflector), the \<^verbatim>\<open>child\<close> method of
  the injected Firebase reference, and the serializer behind \<^verbatim>\<open>this.serialize\<close>.
\<close>

record collaborators =
  camelize :: "string \<Rightarrow> string"
  pluralize :: "string \<Rightarrow> string"
  firebase_child :: "string \<Rightarrow> fbref"
  serialize :: "ds_snapshot \<Rightarrow> string \<Rightarrow> jsobj"

section \<open>Paths and references\<close>

text \<open>\<^verbatim>\<open>parseModelName\<close> and \<^verbatim>\<open>_getParsedModelName\<close> (the same body twice).\<close>

definition parseModelName :: "collaborators \<Rightarrow> string \<Rightarrow> string" where
  "parseModelName E modelName = camelize E (pluralize E modelName)"

definition getParsedModelName :: "collaborators \<Rightarrow> string \<Rightarrow> string" where
  "getParsedModelName E modelName = camelize E (pluralize E modelName)"

definition buildPath :: "collaborators \<Rightarrow> string \<Rightarrow> string \<Rightarrow> adapter_options option \<Rightarrow> string" where
  "buildPath E modelName ident adapterOptions =
     (case adapterOptions of
        None \<Rightarrow> parseModelName E modelName @ ''/'' @ ident
      | Some ao \<Rightarrow>
          (case ao_path ao of
             None \<Rightarrow> parseModelName E modelName @ ''/'' @ ident
           | Some p \<Rightarrow>
               if truthy p then to_string p @ ''/'' @ ident
               else parseModelName E modelName @ ''/'' @ ident))"

definition buildFirebaseReference :: "collaborators \<Rightarrow> string \<Rightarrow> fbref" where
  "buildFirebaseReference E path = firebase_child E path"

definition parseFirebaseReferencePath :: "fbref \<Rightarrow> string" where
  "parseFirebaseReferencePath r = substring (ref_toString r) (length (ref_root_toString r))"

section \<open>Delete fanout\<close>

text \<open>The fanout that \<^verbatim>\<open>deleteRecord\<close> builds before it calls \<^verbatim>\<open>firebase.update\<close>.\<close>

definition deleteRecord_fanout :: "collaborators \<Rightarrow> string \<Rightarrow> ds_snapshot \<Rightarrow> jsobj" where
  "deleteRecord_fanout E typeModelName snapshot =
     (let modelName = getParsedModelName E typeModelName;
          ident = snapshot_id snapshot;
          fanout = []
      in case snapshot_adapterOptions snapshot of
           None \<Rightarrow> fanout
         | Some ao \<Rightarrow>
             (let fanout1 = (case ao_include ao of
                               None \<Rightarrow> fanout
                             | Some inc \<Rightarrow> assign fanout inc)
              in case ao_path ao of
                   Some p \<Rightarrow> set_prop fanout1 (to_string p @ ''/'' @ ident) JNull
                 | None \<Rightarrow> set_prop fanout1 (modelName @ ''/'' @ ident) JNull))"

section \<open>Sorting and filtering of queries\<close>

text \<open>
  \<^verbatim>\<open>_setupQuerySortingAndFiltering(ref, query, isForcingLimitToOne)\<close>. The source mutates
  the descriptor; the model returns it beside the reference.
\<close>

definition default_orderBy :: "query_descriptor \<Rightarrow> query_descriptor" where
  "default_orderBy query =
     (if \<not> present (q_orderBy query) then query\<lparr>q_orderBy := Some (JStr ''id'')\<rparr> else query)"

definition apply_ordering :: "fbref \<Rightarrow> query_descriptor \<Rightarrow> fbref" where
  "apply_ordering r query =
     (let orderBy = (case q_orderBy query of None \<Rightarrow> JUndefined | Some v \<Rightarrow> v)
      in if orderBy = JStr ''id'' then apply_op r OrderByKey
         else if orderBy = JStr ''.value'' then apply_op r OrderByValue
         else apply_op r (OrderByChild orderBy))"

definition force_limit_to_one :: "query_descriptor \<Rightarrow> query_descriptor" where
  "force_limit_to_one query =
     (if present (q_limitToFirst query) \<or> present (q_limitToLast query) then
        (if present (q_limitToFirst query) then query\<lparr>q_limitToFirst := Some (JNum 1)\<rparr>
         else query\<lparr>q_limitToLast := Some (JNum 1)\<rparr>)
      else query\<lparr>q_limitToFirst := Some (JNum 1)\<rparr>)"

definition apply_filter ::
  "query_descriptor \<Rightarrow> (query_descriptor \<Rightarrow> jsval option) \<times> (jsval \<Rightarrow> query_op) \<Rightarrow> fbref \<Rightarrow> fbref" where
  "apply_filter query filter_type r =
     (case fst filter_type query of
        None \<Rightarrow> r
      | Some v \<Rightarrow> apply_op r (snd filter_type v))"

definition filter_types :: "((query_descriptor \<Rightarrow> jsval option) \<times> (jsval \<Rightarrow> query_op)) list" where
  "filter_types =
     [(q_startAt, StartAt), (q_endAt, EndAt), (q_equalTo, EqualTo),
      (q_limitToFirst, LimitToFirst), (q_limitToLast, LimitToLast)]"

definition setupQuerySortingAndFiltering ::
  "fbref \<Rightarrow> query_descriptor \<Rightarrow> bool \<Rightarrow> fbref \<times> query_descriptor" where
  "setupQuerySortingAndFiltering r query isForcingLimitToOne =
     (let query1 = default_orderBy query;
          r1 = apply_ordering r query1;
          query2 = (if isForcingLimitToOne then force_limit_to_one query1 else query1);
          r2 = fold (apply_filter query2) filter_types r1
      in (r2, query2))"

section \<open>Snapshot normalizer\<close>

text \<open>
  \<^verbatim>\<open>mergeSnapshotIdAndValue(snapshot)\<close>, with \<^verbatim>\<open>this.get('innerReferencePathName')\<close> as a
  parameter. The module is strict code: writing a property to \<^verbatim>\<open>null\<close> or to a
  primitive value raises a TypeError.
\<close>

definition innerReferencePath :: "fbref \<Rightarrow> string" where
  "innerReferencePath r =
     (let referencePath = substring (ref_toString r) (length (ref_root_toString r));
          pathNodes = split_on CHR ''/'' referencePath;
          pathNodes1 = tl pathNodes;
          pathNodes2 = butlast pathNodes1
      in join_with CHR ''/'' pathNodes2)"

definition mergeSnapshotIdAndValue :: "string \<Rightarrow> fb_snapshot \<Rightarrow> js_error + jsobj" where
  "mergeSnapshotIdAndValue innerReferencePathName snapshot =
     (let inner = innerReferencePath (snap_ref snapshot)
      in case snap_val snapshot of
           JObj newSnapshot \<Rightarrow>
             Inr (set_prop (set_prop newSnapshot ''id'' (JStr (snap_key snapshot)))
                    innerReferencePathName (JStr inner))
         | JUndefined \<Rightarrow> Inl (JsTypeError ''Cannot set property id'')
         | JNull \<Rightarrow> Inl (JsTypeError ''Cannot set property id'')
         | JBool b \<Rightarrow> Inl (JsTypeError ''Cannot create property id'')
         | JNum n \<Rightarrow> Inl (JsTypeError ''Cannot create property id'')
         | JStr s \<Rightarrow> Inl (JsTypeError ''Cannot create property id''))"

section \<open>The adapter's state and the collaborators it calls\<close>

text \<open>
  Every closure the adapter hands to Firebase is a value of \<open>callback\<close>, holding what the
  closure captured. \<^verbatim>\<open>bind(this, ...)\<close> makes a new function at each call, and
  \<^verbatim>\<open>ref.off(event, callback)\<close> compares functions: the one-shot callback of \<^verbatim>\<open>findRecord\<close>
  is told apart by the promise of its invocation, the child listeners of a query by a
  closure number. The continuous listener of a record is never detached by the adapter.
\<close>

datatype callback =
    UpdateRecordDone nat string ds_snapshot
  | DeleteRecordDone nat
  | FindRecordOnValue nat string string fbref
  | FindRecordOnError nat
  | RecordChangesOnValue string string
  | RecordChangesOnError string string
  | QueryOnChildAdded nat string "jsval" nat
  | QueryOnChildRemoved nat nat

datatype promise_state = Pending | Resolved jsval | Rejected js_error

text \<open>The calls the adapter makes on Firebase and on its promises, in the order made.\<close>

datatype call =
    CallOn fbref string callback
  | CallOff fbref string callback
  | CallUpdate jsobj callback
  | CallResolve nat jsval
  | CallReject nat js_error

record registration =
  reg_ref :: fbref
  reg_event :: string
  reg_callback :: callback
  reg_cancel :: "callback option"

text \<open>
  \<^verbatim>\<open>trackedRecords\<close> is a plain object (\<^verbatim>\<open>{}\<close>) used as a map from model names to plain
  objects, each used as a map from ids to paths. A plain object is not a map for every key:
  \<^item> \<^verbatim>\<open>obj['__proto__'] = v\<close> calls the setter inherited from \<^verbatim>\<open>Object.prototype\<close>. It creates
    no own property; an object \<^verbatim>\<open>v\<close> becomes the prototype of \<^verbatim>\<open>obj\<close>, a string \<^verbatim>\<open>v\<close> is
    ignored. \<^verbatim>\<open>obj['__proto__']\<close> reads the prototype.
  \<^item> \<^verbatim>\<open>obj.hasOwnProperty(k)\<close> looks \<^verbatim>\<open>hasOwnProperty\<close> up in the object and then in its
    prototypes. An own property of that name, or one of a prototype assigned as above,
    shadows the built-in method; it holds a string or an object, and the call raises a
    TypeError.
  The object of one model holds its own properties. The object of the models holds its own
  properties and, once \<^verbatim>\<open>__proto__\<close> was assigned, the object that is its prototype
  (\<open>None\<close> stands for \<^verbatim>\<open>Object.prototype\<close>).
\<close>

type_synonym tracked_ids = "string \<rightharpoonup> string"

record tracked_models =
  own_models :: "string \<rightharpoonup> tracked_ids"
  prototype :: "tracked_ids option"

text \<open>\<^verbatim>\<open>ids[k] = v\<close> for a string \<^verbatim>\<open>v\<close>, and \<^verbatim>\<open>ids.hasOwnProperty(k)\<close>.\<close>

definition ids_assign :: "tracked_ids \<Rightarrow> string \<Rightarrow> string \<Rightarrow> tracked_ids" where
  "ids_assign ids k v = (if k = ''__proto__'' then ids else ids(k \<mapsto> v))"

definition ids_hasOwnProperty :: "tracked_ids \<Rightarrow> string \<Rightarrow> js_error + bool" where
  "ids_hasOwnProperty ids k =
     (if present (ids ''hasOwnProperty'') then Inl (JsTypeError ''hasOwnProperty is not a function'')
      else Inr (present (ids k)))"

text \<open>
  \<^verbatim>\<open>models[k] = obj\<close> for an object \<^verbatim>\<open>obj\<close>; the object that \<^verbatim>\<open>models[k]\<close> reads (where there
  is none of the registry's, the model has \<open>None\<close>); \<^verbatim>\<open>models[k][i] = v\<close>, which changes
  that object in place; and \<^verbatim>\<open>models.hasOwnProperty(k)\<close>.
\<close>

definition models_assign :: "tracked_models \<Rightarrow> string \<Rightarrow> tracked_ids \<Rightarrow> tracked_models" where
  "models_assign models k obj =
     (if k = ''__proto__'' then models\<lparr>prototype := Some obj\<rparr>
      else models\<lparr>own_models := (own_models models)(k \<mapsto> obj)\<rparr>)"

definition models_read :: "tracked_models \<Rightarrow> string \<Rightarrow> tracked_ids option" where
  "models_read models k = (if k = ''__proto__'' then prototype models else own_models models k)"

definition models_assign_in ::
  "tracked_models \<Rightarrow> string \<Rightarrow> string \<Rightarrow> string \<Rightarrow> tracked_models" where
  "models_assign_in models k i v =
     (case models_read models k of
        None \<Rightarrow> models
      | Some ids \<Rightarrow> models_assign models k (ids_assign ids i v))"

definition models_hasOwnProperty :: "tracked_models \<Rightarrow> string \<Rightarrow> js_error + bool" where
  "models_hasOwnProperty models k =
     (if present (own_models models ''hasOwnProperty'')
      then Inl (JsTypeError ''hasOwnProperty is not a function'')
      else if (case prototype models of
                 None \<Rightarrow> False
               | Some proto \<Rightarrow> present (proto ''hasOwnProperty''))
      then Inl (JsTypeError ''hasOwnProperty is not a function'')
      else Inr (present (own_models models k)))"

text \<open>
  A query's result array (\<^verbatim>\<open>DS.AdapterPopulatedRecordArray\<close>) is a shared mutable object,
  kept in a heap under its address: the ids of its content, and its \<^verbatim>\<open>firebase\<close> property
  once \<^verbatim>\<open>_setupRecordExtensions\<close> has set it, held as the reference and the two child
  listeners that the \<^verbatim>\<open>next\<close> and \<^verbatim>\<open>off\<close> closures captured.
\<close>

record record_array =
  ra_content :: "string list"
  ra_firebase :: "(fbref \<times> callback \<times> callback) option"

record world =
  fastboot :: "bool option"
  innerReferencePathName :: string
  trackedRecords :: tracked_models
  trackedQueries :: "string \<rightharpoonup> nat"
  listeners :: "registration list"
  pendingWrites :: "(jsobj \<times> callback) list"
  promises :: "nat \<rightharpoonup> promise_state"
  nextPromise :: nat
  nextClosure :: nat
  arrays :: "nat \<rightharpoonup> record_array"
  storeRecords :: "(string \<times> string) \<rightharpoonup> bool"
  scheduledPushes :: "(string \<times> jsobj) list"
  storeFinds :: "(string \<times> string \<times> jsval \<times> nat) list"
  uncaught :: "js_error list"
  calls :: "call list"

subsection \<open>Promises (RSVP): the first settlement stands\<close>

definition new_promise :: "world \<Rightarrow> nat \<times> world" where
  "new_promise w =
     (nextPromise w,
      w\<lparr>promises := (promises w)(nextPromise w \<mapsto> Pending), nextPromise := nextPromise w + 1\<rparr>)"

definition settle :: "nat \<Rightarrow> promise_state \<Rightarrow> world \<Rightarrow> world" where
  "settle p outcome w =
     (case promises w p of
        Some Pending \<Rightarrow> w\<lparr>promises := (promises w)(p \<mapsto> outcome)\<rparr>
      | Some (Resolved v) \<Rightarrow> w
      | Some (Rejected e) \<Rightarrow> w
      | None \<Rightarrow> w)"

definition resolve :: "nat \<Rightarrow> jsval \<Rightarrow> world \<Rightarrow> world" where
  "resolve p v w = settle p (Resolved v) (w\<lparr>calls := calls w @ [CallResolve p v]\<rparr>)"

definition reject :: "nat \<Rightarrow> js_error \<Rightarrow> world \<Rightarrow> world" where
  "reject p e w = settle p (Rejected e) (w\<lparr>calls := calls w @ [CallReject p e]\<rparr>)"

subsection \<open>Firebase: \<^verbatim>\<open>on\<close>, \<^verbatim>\<open>off\<close> with a callback, \<^verbatim>\<open>update\<close>\<close>

definition ref_on :: "fbref \<Rightarrow> string \<Rightarrow> callback \<Rightarrow> callback option \<Rightarrow> world \<Rightarrow> world" where
  "ref_on r event cb cancel w =
     w\<lparr>listeners := listeners w @
          [\<lparr>reg_ref = r, reg_event = event, reg_callback = cb, reg_cancel = cancel\<rparr>],
       calls := calls w @ [CallOn r event cb]\<rparr>"

fun remove_registration ::
  "fbref \<Rightarrow> string \<Rightarrow> callback \<Rightarrow> registration list \<Rightarrow> registration list" where
  "remove_registration r event cb [] = []"
| "remove_registration r event cb (g # gs) =
     (if reg_ref g = r \<and> reg_event g = event \<and> reg_callback g = cb then gs
      else g # remove_registration r event cb gs)"

definition ref_off :: "fbref \<Rightarrow> string \<Rightarrow> callback \<Rightarrow> world \<Rightarrow> world" where
  "ref_off r event cb w =
     w\<lparr>listeners := remove_registration r event cb (listeners w),
       calls := calls w @ [CallOff r event cb]\<rparr>"

definition firebase_update :: "jsobj \<Rightarrow> callback \<Rightarrow> world \<Rightarrow> world" where
  "firebase_update fanout cb w =
     w\<lparr>pendingWrites := pendingWrites w @ [(fanout, cb)],
       calls := calls w @ [CallUpdate fanout cb]\<rparr>"

section \<open>Subscription tracking of records\<close>

definition isInFastBoot :: "world \<Rightarrow> bool" where
  "isInFastBoot w = (case fastboot w of None \<Rightarrow> False | Some isFastBoot \<Rightarrow> isFastBoot)"

text \<open>
  \<^verbatim>\<open>isTrackingRecordChanges\<close>: the two \<^verbatim>\<open>hasOwnProperty\<close> calls, either of which can raise.
  After the first returned true, \<^verbatim>\<open>trackedRecords[modelName]\<close> is an own property.
\<close>

definition isTrackingRecordChanges :: "world \<Rightarrow> string \<Rightarrow> string \<Rightarrow> js_error + bool" where
  "isTrackingRecordChanges w modelName ident =
     (case models_hasOwnProperty (trackedRecords w) modelName of
        Inl e \<Rightarrow> Inl e
      | Inr has_model \<Rightarrow>
          if has_model then
            (case own_models (trackedRecords w) modelName of
               None \<Rightarrow> Inr False
             | Some ids \<Rightarrow>
                 (case ids_hasOwnProperty ids ident of
                    Inl e \<Rightarrow> Inl e
                  | Inr has_id \<Rightarrow> if has_id then Inr True else Inr False))
          else Inr False)"

text \<open>
  \<^verbatim>\<open>trackRecord\<close>: \<^verbatim>\<open>trackedRecords[modelName] = {}\<close>, then
  \<^verbatim>\<open>trackedRecords[modelName][id] = this.parseFirebaseReferencePath(ref)\<close>.
\<close>

definition trackRecord :: "world \<Rightarrow> string \<Rightarrow> string \<Rightarrow> fbref \<Rightarrow> world" where
  "trackRecord w modelName ident r =
     (let models1 = models_assign (trackedRecords w) modelName Map.empty;
          models2 = models_assign_in models1 modelName ident (parseFirebaseReferencePath r)
      in w\<lparr>trackedRecords := models2\<rparr>)"

text \<open>\<^verbatim>\<open>listenForRecordChanges\<close>; an exception of the lookup leaves it before anything is done.\<close>

definition listenForRecordChanges ::
  "world \<Rightarrow> string \<Rightarrow> string \<Rightarrow> fbref \<Rightarrow> js_error + world" where
  "listenForRecordChanges w modelName ident r =
     (if \<not> isInFastBoot w then
        (case isTrackingRecordChanges w modelName ident of
           Inl e \<Rightarrow> Inl e
         | Inr tracked \<Rightarrow>
             if \<not> tracked then
               Inr (ref_on r ''value'' (RecordChangesOnValue modelName ident)
                      (Some (RecordChangesOnError modelName ident))
                      (trackRecord w modelName ident r))
             else Inr w)
      else Inr w)"

text \<open>
  \<^verbatim>\<open>unloadRecord\<close>: the store's record, when there is one and it is not being saved, is
  unloaded. \<open>storeRecords\<close> maps a record of the store to its \<^verbatim>\<open>isSaving\<close> flag.
\<close>

definition unloadRecord :: "world \<Rightarrow> string \<Rightarrow> string \<Rightarrow> world" where
  "unloadRecord w modelName ident =
     (case storeRecords w (modelName, ident) of
        None \<Rightarrow> w
      | Some isSaving \<Rightarrow>
          if \<not> isSaving then w\<lparr>storeRecords := (storeRecords w)((modelName, ident) := None)\<rparr>
          else w)"

section \<open>Create, update, find and delete\<close>

text \<open>
  Each operation builds its promise and registers its callbacks; Firebase calls them
  later (\<open>on_complete\<close>, \<open>on_snapshot\<close>, \<open>on_cancel\<close> below). \<^verbatim>\<open>type\<close> is read for
  \<^verbatim>\<open>type.modelName\<close> only, and the fourth argument of \<^verbatim>\<open>findRecord\<close> for its
  \<^verbatim>\<open>adapterOptions\<close> only: the model takes these directly.
\<close>

definition updateRecord :: "collaborators \<Rightarrow> string \<Rightarrow> ds_snapshot \<Rightarrow> world \<Rightarrow> nat \<times> world" where
  "updateRecord E typeModelName snapshot w =
     (let (p, w1) = new_promise w;
          serializedSnapshot = serialize E snapshot (innerReferencePathName w1)
      in (p, firebase_update serializedSnapshot (UpdateRecordDone p typeModelName snapshot) w1))"

definition createRecord :: "collaborators \<Rightarrow> string \<Rightarrow> ds_snapshot \<Rightarrow> world \<Rightarrow> nat \<times> world" where
  "createRecord E typeModelName snapshot w = updateRecord E typeModelName snapshot w"

definition findRecord ::
  "collaborators \<Rightarrow> string \<Rightarrow> string \<Rightarrow> adapter_options option \<Rightarrow> world \<Rightarrow> nat \<times> world" where
  "findRecord E modelName ident adapterOptions w =
     (let (p, w1) = new_promise w;
          path = buildPath E modelName ident adapterOptions;
          r = buildFirebaseReference E path;
          onValue = FindRecordOnValue p modelName ident r
      in (p, ref_on r ''value'' onValue (Some (FindRecordOnError p)) w1))"

definition deleteRecord :: "collaborators \<Rightarrow> string \<Rightarrow> ds_snapshot \<Rightarrow> world \<Rightarrow> nat \<times> world" where
  "deleteRecord E typeModelName snapshot w =
     (let (p, w1) = new_promise w;
          fanout = deleteRecord_fanout E typeModelName snapshot
      in (p, firebase_update fanout (DeleteRecordDone p) w1))"

section \<open>Query listeners and tracked queries\<close>

text \<open>
  \<^verbatim>\<open>_setupQueryListListener\<close> with \<^verbatim>\<open>_setupRecordExtensions\<close>: two fresh child listeners are
  attached and the array's \<^verbatim>\<open>firebase\<close> property is overwritten with closures over them.
  The functions of this section test \<^verbatim>\<open>!fastboot || !fastboot.get('isFastBoot')\<close>.
  Setting a property of an object that is not in the heap cannot happen in the source
  (the array is a live object); the model leaves the heap as it is there.
\<close>

definition setupRecordExtensions :: "nat \<Rightarrow> fbref \<Rightarrow> callback \<Rightarrow> callback \<Rightarrow> world \<Rightarrow> world" where
  "setupRecordExtensions recordArray r onChildAdded onChildRemoved w =
     (case arrays w recordArray of
        None \<Rightarrow> w
      | Some a \<Rightarrow>
          w\<lparr>arrays := (arrays w)(recordArray \<mapsto>
               a\<lparr>ra_firebase := Some (r, onChildAdded, onChildRemoved)\<rparr>)\<rparr>)"

definition setupQueryListListener ::
  "string \<Rightarrow> jsval \<Rightarrow> nat \<Rightarrow> fbref \<Rightarrow> world \<Rightarrow> world" where
  "setupQueryListListener modelName recordPath recordArray r w =
     (if (case fastboot w of None \<Rightarrow> True | Some isFastBoot \<Rightarrow> \<not> isFastBoot) then
        (let n = nextClosure w;
             onChildAdded = QueryOnChildAdded n modelName recordPath recordArray;
             onChildRemoved = QueryOnChildRemoved n recordArray;
             w1 = w\<lparr>nextClosure := n + 1\<rparr>;
             w2 = ref_on r ''child_added'' onChildAdded None w1;
             w3 = ref_on r ''child_removed'' onChildRemoved None w2
         in setupRecordExtensions recordArray r onChildAdded onChildRemoved w3)
      else w)"

text \<open>The \<^verbatim>\<open>off()\<close> closure of an array's \<^verbatim>\<open>firebase\<close> property.\<close>

definition extension_off :: "fbref \<times> callback \<times> callback \<Rightarrow> world \<Rightarrow> world" where
  "extension_off ext w =
     (case ext of (r, onChildAdded, onChildRemoved) \<Rightarrow>
        ref_off r ''child_removed'' onChildRemoved (ref_off r ''child_added'' onChildAdded w))"

text \<open>
  \<^verbatim>\<open>_trackQuery(cacheId, recordArray)\<close>. A tracked array whose \<^verbatim>\<open>firebase\<close> property was
  never set makes \<^verbatim>\<open>trackedQueryCache.get('firebase').off()\<close> raise.
\<close>

definition trackQuery :: "string \<Rightarrow> nat \<Rightarrow> world \<Rightarrow> js_error + world" where
  "trackQuery cacheId recordArray w =
     (if (case fastboot w of None \<Rightarrow> True | Some isFastBoot \<Rightarrow> \<not> isFastBoot) then
        (let store_entry = (\<lambda>w'. w'\<lparr>trackedQueries := (trackedQueries w)(cacheId \<mapsto> recordArray)\<rparr>)
         in case trackedQueries w cacheId of
              None \<Rightarrow> Inr (store_entry w)
            | Some trackedQueryCache \<Rightarrow>
                (case arrays w trackedQueryCache of
                   None \<Rightarrow> Inl (JsTypeError ''Cannot read property off of undefined'')
                 | Some a \<Rightarrow>
                     (case ra_firebase a of
                        None \<Rightarrow> Inl (JsTypeError ''Cannot read property off of undefined'')
                      | Some ext \<Rightarrow> Inr (store_entry (extension_off ext w)))))
      else Inr w)"

text \<open>
  What \<^verbatim>\<open>query\<close> does for a descriptor with a \<^verbatim>\<open>cacheId\<close> once every record of the
  result was found (the \<^verbatim>\<open>if (query.hasOwnProperty('cacheId'))\<close> block): the child
  listeners are set up for the result array, then the array is tracked. The same block
  runs again, with the same array, when the array is refreshed (\<^verbatim>\<open>recordArray.update()\<close>,
  which the \<^verbatim>\<open>next\<close> closure of the extension calls too).
\<close>

definition query_keep_live ::
  "string \<Rightarrow> jsval \<Rightarrow> query_descriptor \<Rightarrow> nat \<Rightarrow> fbref \<Rightarrow> world \<Rightarrow> js_error + world" where
  "query_keep_live modelName recordPath query recordArray r w =
     (case q_cacheId query of
        None \<Rightarrow> Inr w
      | Some cacheId \<Rightarrow>
          trackQuery (to_string cacheId) recordArray
            (setupQueryListListener modelName recordPath recordArray r w))"

definition and_then :: "js_error + world \<Rightarrow> (world \<Rightarrow> js_error + world) \<Rightarrow> js_error + world" where
  "and_then result f = (case result of Inl e \<Rightarrow> Inl e | Inr w \<Rightarrow> f w)"

section \<open>What Firebase delivers\<close>

text \<open>
  An exception that leaves a callback is not caught by the adapter: what the callback did
  before stays done, the rest of it does not run, and the error is recorded in \<open>uncaught\<close>.
\<close>

text \<open>The completion callback of \<^verbatim>\<open>firebase.update\<close>, called with an error or with none.\<close>

fun on_complete :: "collaborators \<Rightarrow> callback \<Rightarrow> string option \<Rightarrow> world \<Rightarrow> world" where
  "on_complete E (UpdateRecordDone p typeModelName snapshot) error w =
     (case error of
        Some e \<Rightarrow> reject p (JsError e) w
      | None \<Rightarrow>
          (let modelName = typeModelName;
               ident = snapshot_id snapshot;
               path = buildPath E modelName ident (snapshot_adapterOptions snapshot);
               r = buildFirebaseReference E path
           in case listenForRecordChanges w modelName ident r of
                Inl e \<Rightarrow> w\<lparr>uncaught := uncaught w @ [e]\<rparr>
              | Inr w1 \<Rightarrow> resolve p JUndefined w1))"
| "on_complete E (DeleteRecordDone p) error w =
     (case error of
        Some e \<Rightarrow> reject p (JsError e) w
      | None \<Rightarrow> resolve p JUndefined w)"
| "on_complete E cb error w = w"

text \<open>A snapshot delivered to a listener (\<^verbatim>\<open>value\<close>, \<^verbatim>\<open>child_added\<close>, \<^verbatim>\<open>child_removed\<close>).\<close>

fun on_snapshot :: "callback \<Rightarrow> fb_snapshot \<Rightarrow> world \<Rightarrow> world" where
  "on_snapshot (FindRecordOnValue p modelName ident r) snapshot w =
     (if snapshot_exists snapshot then
        (case listenForRecordChanges w modelName ident r of
           Inl e \<Rightarrow> w\<lparr>uncaught := uncaught w @ [e]\<rparr>
         | Inr w1 \<Rightarrow>
             (let w2 = ref_off r ''value'' (FindRecordOnValue p modelName ident r) w1
              in case mergeSnapshotIdAndValue (innerReferencePathName w2) snapshot of
                   Inr payload \<Rightarrow> resolve p (JObj payload) w2
                 | Inl e \<Rightarrow> w2\<lparr>uncaught := uncaught w2 @ [e]\<rparr>))
      else reject p (JsError (''Record '' @ ident @ '' for type '' @ modelName @ '' not found'')) w)"
| "on_snapshot (RecordChangesOnValue modelName ident) snapshot w =
     (if snapshot_exists snapshot then
        (case mergeSnapshotIdAndValue (innerReferencePathName w) snapshot of
           Inr snapshotWithId \<Rightarrow>
             w\<lparr>scheduledPushes := scheduledPushes w @ [(modelName, snapshotWithId)]\<rparr>
         | Inl e \<Rightarrow> w\<lparr>uncaught := uncaught w @ [e]\<rparr>)
      else unloadRecord w modelName ident)"
| "on_snapshot (QueryOnChildAdded n modelName recordPath recordArray) snapshot w =
     w\<lparr>storeFinds := storeFinds w @ [(modelName, snap_key snapshot, recordPath, recordArray)]\<rparr>"
| "on_snapshot (QueryOnChildRemoved n recordArray) snapshot w =
     (case arrays w recordArray of
        None \<Rightarrow> w
      | Some a \<Rightarrow>
          w\<lparr>arrays := (arrays w)(recordArray \<mapsto>
               a\<lparr>ra_content := removeAll (snap_key snapshot) (ra_content a)\<rparr>)\<rparr>)"
| "on_snapshot cb snapshot w = w"

text \<open>The cancel callback of a listener, called with the remote error.\<close>

fun on_cancel :: "callback \<Rightarrow> string \<Rightarrow> world \<Rightarrow> world" where
  "on_cancel (FindRecordOnError p) error w = reject p (JsError error) w"
| "on_cancel (RecordChangesOnError modelName ident) error w = unloadRecord w modelName ident"
| "on_cancel cb error w = w"

text \<open>
  An event of one type at one reference: Firebase calls every callback registered there
  for that type, in registration order.
\<close>

definition fired_callbacks :: "fbref \<Rightarrow> string \<Rightarrow> world \<Rightarrow> callback list" where
  "fired_callbacks r event w =
     map reg_callback (filter (\<lambda>g. reg_ref g = r \<and> reg_event g = event) (listeners w))"

definition fire :: "fbref \<Rightarrow> string \<Rightarrow> fb_snapshot \<Rightarrow> world \<Rightarrow> world" where
  "fire r event snapshot w = fold (\<lambda>cb. on_snapshot cb snapshot) (fired_callbacks r event w) w"

text \<open>Any sequence of deliveries, each to one callback.\<close>

datatype delivery =
    Snapshot callback fb_snapshot
  | Cancel callback string
  | Complete callback "string option"

fun deliver :: "collaborators \<Rightarrow> delivery \<Rightarrow> world \<Rightarrow> world" where
  "deliver E (Snapshot cb snapshot) w = on_snapshot cb snapshot w"
| "deliver E (Cancel cb error) w = on_cancel cb error w"
| "deliver E (Complete cb error) w = on_complete E cb error w"

text \<open>
  What happens to the adapter between a call and the event that answers it: a delivery to
  some callback, or the start of a find, an update, a create or a delete.
\<close>

datatype step =
    Deliver delivery
  | StartFind string string "adapter_options option"
  | StartUpdate string ds_snapshot
  | StartCreate string ds_snapshot
  | StartDelete string ds_snapshot

fun run_step :: "collaborators \<Rightarrow> step \<Rightarrow> world \<Rightarrow> world" where
  "run_step E (Deliver d) w = deliver E d w"
| "run_step E (StartFind modelName ident adapterOptions) w =
     snd (findRecord E modelName ident adapterOptions w)"
| "run_step E (StartUpdate typeModelName snapshot) w = snd (updateRecord E typeModelName snapshot w)"
| "run_step E (StartCreate typeModelName snapshot) w = snd (createRecord E typeModelName snapshot w)"
| "run_step E (StartDelete typeModelName snapshot) w = snd (deleteRecord E typeModelName snapshot w)"

section \<open>Observations used in the statements\<close>

text \<open>The operators a call added to a reference, and which of them order.\<close>

definition added_ops :: "fbref \<Rightarrow> fbref \<Rightarrow> query_op list" where
  "added_ops r r' = drop (length (ref_ops r)) (ref_ops r')"

definition is_ordering :: "query_op \<Rightarrow> bool" where
  "is_ordering operator =
     (case operator of
        OrderByKey \<Rightarrow> True | OrderByValue \<Rightarrow> True | OrderByChild c \<Rightarrow> True
      | StartAt v \<Rightarrow> False | EndAt v \<Rightarrow> False | EqualTo v \<Rightarrow> False
      | LimitToFirst v \<Rightarrow> False | LimitToLast v \<Rightarrow> False)"

definition filter_ops :: "query_descriptor \<Rightarrow> query_op list" where
  "filter_ops q =
     (case q_startAt q of None \<Rightarrow> [] | Some v \<Rightarrow> [StartAt v]) @
     (case q_endAt q of None \<Rightarrow> [] | Some v \<Rightarrow> [EndAt v]) @
     (case q_equalTo q of None \<Rightarrow> [] | Some v \<Rightarrow> [EqualTo v]) @
     (case q_limitToFirst q of None \<Rightarrow> [] | Some v \<Rightarrow> [LimitToFirst v]) @
     (case q_limitToLast q of None \<Rightarrow> [] | Some v \<Rightarrow> [LimitToLast v])"

text \<open>The promise that a callback, a delivery or a step can settle.\<close>

fun callback_promise :: "callback \<Rightarrow> nat option" where
  "callback_promise (UpdateRecordDone p typeModelName snapshot) = Some p"
| "callback_promise (DeleteRecordDone p) = Some p"
| "callback_promise (FindRecordOnValue p modelName ident r) = Some p"
| "callback_promise (FindRecordOnError p) = Some p"
| "callback_promise cb = None"

fun delivery_promise :: "delivery \<Rightarrow> nat option" where
  "delivery_promise (Snapshot cb snapshot) = callback_promise cb"
| "delivery_promise (Cancel cb error) = callback_promise cb"
| "delivery_promise (Complete cb error) = callback_promise cb"

fun step_promise :: "step \<Rightarrow> nat option" where
  "step_promise (Deliver d) = delivery_promise d"
| "step_promise st = None"

text \<open>The continuous value listeners attached for one record, and the live child
  listeners that feed one result array.\<close>

definition continuous_listeners :: "string \<Rightarrow> string \<Rightarrow> world \<Rightarrow> registration list" where
  "continuous_listeners modelName ident w =
     filter (\<lambda>g. reg_event g = ''value'' \<and> reg_callback g = RecordChangesOnValue modelName ident)
       (listeners w)"

fun feeds_array :: "callback \<Rightarrow> nat option" where
  "feeds_array (QueryOnChildAdded n modelName recordPath recordArray) = Some recordArray"
| "feeds_array (QueryOnChildRemoved n recordArray) = Some recordArray"
| "feeds_array cb = None"

definition live_child_listeners :: "nat \<Rightarrow> world \<Rightarrow> callback list" where
  "live_child_listeners recordArray w =
     filter (\<lambda>cb. feeds_array cb = Some recordArray) (map reg_callback (listeners w))"

section \<open>Concrete collaborators and states for evaluation\<close>

definition example_child :: "string \<Rightarrow> fbref" where
  "example_child path =
     \<lparr>ref_toString = ''https://db/'' @ path, ref_root_toString = ''https://db/'', ref_ops = []\<rparr>"

definition example_collaborators :: collaborators where
  "example_collaborators =
     \<lparr>camelize = (\<lambda>s. s), pluralize = (\<lambda>s. s @ ''s''), firebase_child = example_child,
      serialize = (\<lambda>snapshot innerName. snapshot_attributes snapshot)\<rparr>"

definition init_world :: "bool option \<Rightarrow> world" where
  "init_world fb =
     \<lparr>fastboot = fb, innerReferencePathName = ''_innerReferencePath'',
      trackedRecords = \<lparr>own_models = Map.empty, prototype = None\<rparr>,
      trackedQueries = Map.empty, listeners = [],
      pendingWrites = [], promises = Map.empty, nextPromise = 0, nextClosure = 0,
      arrays = Map.empty, storeRecords = Map.empty, scheduledPushes = [], storeFinds = [],
      uncaught = [], calls = []\<rparr>"

definition empty_query :: query_descriptor where
  "empty_query =
     \<lparr>q_orderBy = None, q_startAt = None, q_endAt = None, q_equalTo = None,
      q_limitToFirst = None, q_limitToLast = None, q_path = None, q_isReference = None,
      q_cacheId = None\<rparr>"

definition example_snapshot :: "string \<Rightarrow> string \<Rightarrow> jsval \<Rightarrow> fb_snapshot" where
  "example_snapshot path key v = \<lparr>snap_ref = example_child path, snap_key = key, snap_val = v\<rparr>"

definition example_record :: "string \<Rightarrow> fb_snapshot" where
  "example_record ident =
     example_snapshot (''posts/'' @ ident) ident (JObj [(''title'', JStr ''x'')])"

text \<open>A fresh adapter with two result arrays in the heap.\<close>

definition two_arrays_world :: world where
  "two_arrays_world =
     (init_world None)
       \<lparr>arrays := [0 \<mapsto> \<lparr>ra_content = [], ra_firebase = None\<rparr>,
                   1 \<mapsto> \<lparr>ra_content = [], ra_firebase = None\<rparr>]\<rparr>"

text \<open>One \<^verbatim>\<open>findRecord\<close> call followed by the first value event at its reference.\<close>

definition findRecord_then_value ::
  "collaborators \<Rightarrow> string \<Rightarrow> string \<Rightarrow> adapter_options option \<Rightarrow> fb_snapshot \<Rightarrow> world \<Rightarrow> world" where
  "findRecord_then_value E modelName ident adapterOptions snapshot w =
     (let (p, w1) = findRecord E modelName ident adapterOptions w;
          r = buildFirebaseReference E (buildPath E modelName ident adapterOptions)
      in on_snapshot (FindRecordOnValue p modelName ident r) snapshot w1)"

text \<open>
  A fresh adapter in which a find of the post \<^verbatim>\<open>1\<close> (promise 0) and a find of the post
  \<^verbatim>\<open>2\<close> (promise 1) have been started and no event has arrived yet.
\<close>

definition two_finds_world :: world where
  "two_finds_world =
     snd (findRecord example_collaborators ''post'' ''2'' None
            (snd (findRecord example_collaborators ''post'' ''1'' None (init_world None))))"

section \<open>Properties of objects and strings\<close>

lemma map_of_set_prop: "map_of (set_prop obj k v) = (map_of obj)(k \<mapsto> v)"
  by (induction obj) (auto simp: fun_eq_iff)

lemma map_of_assign: "map_of (assign t s) = map_of t ++ map_of (rev s)"
  unfolding assign_def
  by (induction s arbitrary: t)
     (auto simp: map_of_set_prop fun_eq_iff map_add_def split: option.splits)

lemma map_of_rev_distinct: "distinct (map fst xs) \<Longrightarrow> map_of (rev xs) = map_of xs"
proof (induction xs)
  case Nil
  show ?case by simp
next
  case (Cons x xs)
  have fresh: "map_of xs (fst x) = None"
    using Cons.prems by (simp add: map_of_eq_None_iff)
  have "map_of (rev (x # xs)) = map_of [x] ++ map_of (rev xs)"
    by simp
  also have "\<dots> = map_of [x] ++ map_of xs"
    using Cons by simp
  also have "\<dots> = map_of (x # xs)"
    using fresh by (auto simp: fun_eq_iff map_add_def split: option.splits)
  finally show ?case .
qed

lemma split_on_not_Nil: "split_on c s \<noteq> []"
  by (induction s) (auto split: list.splits)

lemma split_on_no_sep: "c \<notin> set w \<Longrightarrow> split_on c w = [w]"
  by (induction w) auto

lemma split_on_append_sep:
  "c \<notin> set w \<Longrightarrow> split_on c (w @ c # rest) = w # split_on c rest"
  by (induction w) auto

text \<open>Splitting undoes joining, for segments that do not hold the separator.\<close>

lemma split_on_join_with:
  "segs \<noteq> [] \<Longrightarrow> list_all (\<lambda>seg. c \<notin> set seg) segs \<Longrightarrow>
   split_on c (join_with c segs) = segs"
  by (induction c segs rule: join_with.induct)
     (auto simp: split_on_no_sep split_on_append_sep)

section \<open>Properties of the delete fanout\<close>

text \<open>
  With adapter options the fanout holds the caller's \<^verbatim>\<open>include\<close> entries and the tombstone
  of \<^verbatim>\<open>path/id\<close>, or of \<^verbatim>\<open>modelName/id\<close> when no path is given.
\<close>

lemma deleteRecord_fanout_tombstone:
  "snapshot_adapterOptions s = Some ao \<Longrightarrow>
   map_of (deleteRecord_fanout E m s)
     ((case ao_path ao of
         Some p \<Rightarrow> to_string p
       | None \<Rightarrow> getParsedModelName E m) @ ''/'' @ snapshot_id s) = Some JNull"
  by (simp add: deleteRecord_fanout_def map_of_set_prop split: option.splits)

lemma deleteRecord_fanout_include:
  "snapshot_adapterOptions s = Some ao \<Longrightarrow> ao_include ao = Some inc \<Longrightarrow>
   distinct (map fst inc) \<Longrightarrow>
   k \<noteq> (case ao_path ao of
          Some p \<Rightarrow> to_string p
        | None \<Rightarrow> getParsedModelName E m) @ ''/'' @ snapshot_id s \<Longrightarrow>
   map_of (deleteRecord_fanout E m s) k = map_of inc k"
  by (simp add: deleteRecord_fanout_def map_of_set_prop map_of_assign map_of_rev_distinct
        split: option.splits)

lemma deleteRecord_fanout_include_and_path:
  "deleteRecord_fanout E m
     \<lparr>snapshot_id = ident,
      snapshot_adapterOptions =
        Some \<lparr>ao_include = Some [(''a/1'', JNull)], ao_path = Some (JStr ''b'')\<rparr>,
      snapshot_attributes = attrs\<rparr> =
   [(''a/1'', JNull), (''b/'' @ ident, JNull)]"
  by (simp add: deleteRecord_fanout_def assign_def)

text \<open>
  C1. The claim: the fanout of every \<^verbatim>\<open>deleteRecord\<close> call holds the \<^verbatim>\<open>include\<close> entries and
  the tombstone of \<^verbatim>\<open>path/id\<close> or of \<^verbatim>\<open>modelName/id\<close>; with no adapter options it holds
  \<^verbatim>\<open>modelName/id -> null\<close>. The code handles the default inside \<^verbatim>\<open>if (adapterOptions)\<close>:
  deleting the post \<^verbatim>\<open>1\<close> with no adapter options writes the empty fanout, which holds no
  tombstone for \<^verbatim>\<open>posts/1\<close>, and nothing else is written.
\<close>

theorem deleteRecord_without_adapterOptions_writes_nothing:
  "deleteRecord_fanout example_collaborators ''post''
     \<lparr>snapshot_id = ''1'', snapshot_adapterOptions = None, snapshot_attributes = []\<rparr> = [] \<and>
   getParsedModelName example_collaborators ''post'' @ ''/'' @ ''1'' = ''posts/1'' \<and>
   hasOwnProperty
     (deleteRecord_fanout example_collaborators ''post''
        \<lparr>snapshot_id = ''1'', snapshot_adapterOptions = None, snapshot_attributes = []\<rparr>)
     ''posts/1'' = False \<and>
   pendingWrites
     (snd (deleteRecord example_collaborators ''post''
        \<lparr>snapshot_id = ''1'', snapshot_adapterOptions = None, snapshot_attributes = []\<rparr>
        (init_world None))) = [([], DeleteRecordDone 0)]"
  by (simp add: deleteRecord_fanout_def deleteRecord_def new_promise_def firebase_update_def
        init_world_def getParsedModelName_def example_collaborators_def hasOwnProperty_def)

section \<open>Properties of sorting and filtering\<close>

lemma fold_filters:
  "ref_ops (fold (apply_filter q) filter_types r) = ref_ops r @ filter_ops q"
  by (simp add: filter_types_def apply_filter_def apply_op_def filter_ops_def
        split: option.splits)

lemma filter_ops_no_ordering: "filter is_ordering (filter_ops q) = []"
  by (simp add: filter_ops_def is_ordering_def split: option.splits)

text \<open>The operators added to the reference: one ordering, then the filters present.\<close>

lemma setupQuerySortingAndFiltering_added_ops:
  "added_ops r (fst (setupQuerySortingAndFiltering r q force)) =
     added_ops r (apply_ordering r (default_orderBy q)) @
     filter_ops (snd (setupQuerySortingAndFiltering r q force))"
  by (simp add: setupQuerySortingAndFiltering_def Let_def fold_filters added_ops_def
        apply_ordering_def apply_op_def)

text \<open>
  C2. On the single-result path (\<^verbatim>\<open>isForcingLimitToOne\<close> set) the descriptor that comes back
  has \<^verbatim>\<open>limitToFirst = 1\<close> when it had neither limit; \<^verbatim>\<open>limitToLast = 1\<close> and still no
  \<^verbatim>\<open>limitToFirst\<close> when it had \<^verbatim>\<open>limitToLast\<close> only; \<^verbatim>\<open>limitToFirst = 1\<close> when it had
  \<^verbatim>\<open>limitToFirst\<close>. It differs from the descriptor with its \<^verbatim>\<open>orderBy\<close> default in exactly
  one of the two limits, and the forced limit is applied to the reference.
\<close>

theorem setupQuerySortingAndFiltering_forces_one_limit:
  "(let r' = fst (setupQuerySortingAndFiltering r q True);
        q' = snd (setupQuerySortingAndFiltering r q True)
    in (\<not> present (q_limitToFirst q) \<and> \<not> present (q_limitToLast q) \<longrightarrow>
          q_limitToFirst q' = Some (JNum 1) \<and> q_limitToLast q' = None \<and>
          LimitToFirst (JNum 1) \<in> set (added_ops r r')) \<and>
       (\<not> present (q_limitToFirst q) \<and> present (q_limitToLast q) \<longrightarrow>
          q_limitToLast q' = Some (JNum 1) \<and> q_limitToFirst q' = None \<and>
          LimitToLast (JNum 1) \<in> set (added_ops r r')) \<and>
       (present (q_limitToFirst q) \<longrightarrow>
          q_limitToFirst q' = Some (JNum 1) \<and> q_limitToLast q' = q_limitToLast q \<and>
          LimitToFirst (JNum 1) \<in> set (added_ops r r')) \<and>
       (q' = (default_orderBy q)\<lparr>q_limitToFirst := Some (JNum 1)\<rparr> \<or>
        q' = (default_orderBy q)\<lparr>q_limitToLast := Some (JNum 1)\<rparr>))"
  by (auto simp: setupQuerySortingAndFiltering_def Let_def force_limit_to_one_def
        default_orderBy_def present_def fold_filters added_ops_def apply_ordering_def
        apply_op_def filter_ops_def
      split: option.splits)

theorem setupQuerySortingAndFiltering_forces_one_limit_witness:
  "q_limitToFirst (snd (setupQuerySortingAndFiltering (example_child ''posts/'')
      empty_query True)) = Some (JNum 1) \<and>
   q_limitToLast (snd (setupQuerySortingAndFiltering (example_child ''posts/'')
      empty_query True)) = None \<and>
   q_limitToLast (snd (setupQuerySortingAndFiltering (example_child ''posts/'')
      (empty_query\<lparr>q_limitToLast := Some (JNum 5)\<rparr>) True)) = Some (JNum 1) \<and>
   q_limitToFirst (snd (setupQuerySortingAndFiltering (example_child ''posts/'')
      (empty_query\<lparr>q_limitToLast := Some (JNum 5)\<rparr>) True)) = None \<and>
   q_limitToFirst (snd (setupQuerySortingAndFiltering (example_child ''posts/'')
      (empty_query\<lparr>q_limitToFirst := Some (JNum 5), q_limitToLast := Some (JNum 7)\<rparr>) True)) =
     Some (JNum 1) \<and>
   q_limitToLast (snd (setupQuerySortingAndFiltering (example_child ''posts/'')
      (empty_query\<lparr>q_limitToFirst := Some (JNum 5), q_limitToLast := Some (JNum 7)\<rparr>) True)) =
     Some (JNum 7)"
  using
    setupQuerySortingAndFiltering_forces_one_limit
      [where q = empty_query and r = "example_child ''posts/''"]
    setupQuerySortingAndFiltering_forces_one_limit
      [where q = "empty_query\<lparr>q_limitToLast := Some (JNum 5)\<rparr>"
         and r = "example_child ''posts/''"]
    setupQuerySortingAndFiltering_forces_one_limit
      [where q = "empty_query\<lparr>q_limitToFirst := Some (JNum 5), q_limitToLast := Some (JNum 7)\<rparr>"
         and r = "example_child ''posts/''"]
  by (simp add: Let_def present_def empty_query_def)

text \<open>
  C7. The ordering applied to the reference is key ordering when \<^verbatim>\<open>orderBy\<close> is absent or
  \<^verbatim>\<open>'id'\<close>, value ordering when it is \<^verbatim>\<open>'.value'\<close>, and child ordering by \<^verbatim>\<open>orderBy\<close> otherwise.
  It is the first operator added and the only ordering among those added, so a descriptor
  without \<^verbatim>\<open>orderBy\<close> gets neither value nor child ordering; and the descriptor that comes
  back records \<^verbatim>\<open>orderBy = 'id'\<close> when it had none.
\<close>

theorem setupQuerySortingAndFiltering_ordering:
  "(let r' = fst (setupQuerySortingAndFiltering r q force);
        q' = snd (setupQuerySortingAndFiltering r q force)
    in (q_orderBy q = None \<or> q_orderBy q = Some (JStr ''id'') \<longrightarrow>
          filter is_ordering (added_ops r r') = [OrderByKey]) \<and>
       (q_orderBy q = Some (JStr ''.value'') \<longrightarrow>
          filter is_ordering (added_ops r r') = [OrderByValue]) \<and>
       (\<forall>v. q_orderBy q = Some v \<and> v \<noteq> JStr ''id'' \<and> v \<noteq> JStr ''.value'' \<longrightarrow>
          filter is_ordering (added_ops r r') = [OrderByChild v]) \<and>
       take 1 (added_ops r r') = filter is_ordering (added_ops r r') \<and>
       (q_orderBy q = None \<longrightarrow> q_orderBy q' = Some (JStr ''id'')) \<and>
       (\<forall>v. q_orderBy q = Some v \<longrightarrow> q_orderBy q' = Some v))"
  by (auto simp: setupQuerySortingAndFiltering_def Let_def fold_filters added_ops_def
        apply_ordering_def apply_op_def default_orderBy_def present_def force_limit_to_one_def
        filter_ops_no_ordering is_ordering_def)

theorem setupQuerySortingAndFiltering_ordering_witness:
  "filter is_ordering (added_ops (example_child ''posts/'')
      (fst (setupQuerySortingAndFiltering (example_child ''posts/'')
         (empty_query\<lparr>q_equalTo := Some (JNum 3)\<rparr>) False))) = [OrderByKey] \<and>
   q_orderBy (snd (setupQuerySortingAndFiltering (example_child ''posts/'')
         (empty_query\<lparr>q_equalTo := Some (JNum 3)\<rparr>) False)) = Some (JStr ''id'') \<and>
   filter is_ordering (added_ops (example_child ''posts/'')
      (fst (setupQuerySortingAndFiltering (example_child ''posts/'')
         (empty_query\<lparr>q_orderBy := Some (JStr ''.value'')\<rparr>) False))) = [OrderByValue] \<and>
   filter is_ordering (added_ops (example_child ''posts/'')
      (fst (setupQuerySortingAndFiltering (example_child ''posts/'')
         (empty_query\<lparr>q_orderBy := Some (JStr ''title'')\<rparr>) False))) =
     [OrderByChild (JStr ''title'')]"
  using
    setupQuerySortingAndFiltering_ordering
      [where q = "empty_query\<lparr>q_equalTo := Some (JNum 3)\<rparr>"
         and r = "example_child ''posts/''" and force = False]
    setupQuerySortingAndFiltering_ordering
      [where q = "empty_query\<lparr>q_orderBy := Some (JStr ''.value'')\<rparr>"
         and r = "example_child ''posts/''" and force = False]
    setupQuerySortingAndFiltering_ordering
      [where q = "empty_query\<lparr>q_orderBy := Some (JStr ''title'')\<rparr>"
         and r = "example_child ''posts/''" and force = False]
  by (simp add: Let_def empty_query_def)

section \<open>Properties of the snapshot normalizer\<close>

lemma mergeSnapshotIdAndValue_JObj:
  "snap_val s = JObj obj \<Longrightarrow>
   mergeSnapshotIdAndValue name s =
     Inr (set_prop (set_prop obj ''id'' (JStr (snap_key s))) name
            (JStr (innerReferencePath (snap_ref s))))"
  by (simp add: mergeSnapshotIdAndValue_def)

text \<open>
  The inner reference path, for a reference whose string is the root's string followed by
  segments joined with \<^verbatim>\<open>/\<close>: the segments but the first and the last, joined again.
\<close>

lemma innerReferencePath_segments:
  assumes "ref_toString r = ref_root_toString r @ join_with CHR ''/'' segments"
      and "segments \<noteq> []"
      and "list_all (\<lambda>seg. CHR ''/'' \<notin> set seg) segments"
  shows "innerReferencePath r = join_with CHR ''/'' (butlast (tl segments))"
  using assms by (simp add: innerReferencePath_def substring_def split_on_join_with)

text \<open>
  C4, as amended. For a snapshot whose value is an object, the normalizer returns that
  object with \<^verbatim>\<open>id\<close> set to the snapshot's key and the inner-path property set to the
  reference path behind the root prefix, without its first and last segments, joined with
  \<^verbatim>\<open>/\<close>; every other property is as it was.
\<close>

theorem mergeSnapshotIdAndValue_object:
  assumes "snap_val s = JObj obj"
      and "ref_toString (snap_ref s) =
             ref_root_toString (snap_ref s) @ join_with CHR ''/'' segments"
      and "segments \<noteq> []"
      and "list_all (\<lambda>seg. CHR ''/'' \<notin> set seg) segments"
  shows "(let inner = join_with CHR ''/'' (butlast (tl segments));
              payload = set_prop (set_prop obj ''id'' (JStr (snap_key s))) name (JStr inner)
          in mergeSnapshotIdAndValue name s = Inr payload \<and>
             map_of payload name = Some (JStr inner) \<and>
             (name \<noteq> ''id'' \<longrightarrow> map_of payload ''id'' = Some (JStr (snap_key s))) \<and>
             (\<forall>k. k \<noteq> ''id'' \<and> k \<noteq> name \<longrightarrow> map_of payload k = map_of obj k))"
  using mergeSnapshotIdAndValue_JObj[OF assms(1), of name]
    innerReferencePath_segments[OF assms(2-4)]
  by (simp add: Let_def map_of_set_prop)

text \<open>
  Under the root of the tree the node \<^verbatim>\<open>users/u1/profile/p1\<close> has the inner path
  \<^verbatim>\<open>u1/profile\<close>. The inner path \<^verbatim>\<open>profile\<close> is the one of the node \<^verbatim>\<open>users/profile/p1\<close>, and of
  a reference string \<^verbatim>\<open>users/u1/profile/p1\<close> when the string stripped as the root is
  \<^verbatim>\<open>users/\<close>, separator included (the path behind the root is then \<^verbatim>\<open>u1/profile/p1\<close>).
\<close>

theorem mergeSnapshotIdAndValue_object_witness:
  "mergeSnapshotIdAndValue ''_innerReferencePath''
     (example_snapshot ''users/u1/profile/p1'' ''p1'' (JObj [(''name'', JStr ''Ana'')])) =
     Inr [(''name'', JStr ''Ana''), (''id'', JStr ''p1''),
          (''_innerReferencePath'', JStr ''u1/profile'')] \<and>
   mergeSnapshotIdAndValue ''_innerReferencePath''
     (example_snapshot ''users/profile/p1'' ''p1'' (JObj [(''name'', JStr ''Ana'')])) =
     Inr [(''name'', JStr ''Ana''), (''id'', JStr ''p1''),
          (''_innerReferencePath'', JStr ''profile'')] \<and>
   mergeSnapshotIdAndValue ''_innerReferencePath''
     \<lparr>snap_ref = \<lparr>ref_toString = ''users/u1/profile/p1'', ref_root_toString = ''users/'',
                  ref_ops = []\<rparr>,
      snap_key = ''p1'', snap_val = JObj [(''name'', JStr ''Ana'')]\<rparr> =
     Inr [(''name'', JStr ''Ana''), (''id'', JStr ''p1''),
          (''_innerReferencePath'', JStr ''profile'')]"
  using
    mergeSnapshotIdAndValue_object
      [where s = "example_snapshot ''users/u1/profile/p1'' ''p1'' (JObj [(''name'', JStr ''Ana'')])"
         and obj = "[(''name'', JStr ''Ana'')]"
         and segments = "[''users'', ''u1'', ''profile'', ''p1'']"
         and name = "''_innerReferencePath''"]
    mergeSnapshotIdAndValue_object
      [where s = "example_snapshot ''users/profile/p1'' ''p1'' (JObj [(''name'', JStr ''Ana'')])"
         and obj = "[(''name'', JStr ''Ana'')]"
         and segments = "[''users'', ''profile'', ''p1'']"
         and name = "''_innerReferencePath''"]
    mergeSnapshotIdAndValue_object
      [where s = "\<lparr>snap_ref = \<lparr>ref_toString = ''users/u1/profile/p1'',
                    ref_root_toString = ''users/'', ref_ops = []\<rparr>,
                  snap_key = ''p1'', snap_val = JObj [(''name'', JStr ''Ana'')]\<rparr>"
         and obj = "[(''name'', JStr ''Ana'')]"
         and segments = "[''u1'', ''profile'', ''p1'']"
         and name = "''_innerReferencePath''"]
  by (simp add: example_snapshot_def example_child_def Let_def)

text \<open>
  C4 as stated fails: the node at \<^verbatim>\<open>users/u1/profile/p1\<close> gets the inner path
  \<^verbatim>\<open>u1/profile\<close>, not \<^verbatim>\<open>profile\<close>, with the root prefix \<^verbatim>\<open>users\<close> as with the root of the
  tree; and a snapshot whose value is not an object gets no payload, the normalizer raises.
\<close>

theorem mergeSnapshotIdAndValue_counterexample:
  "mergeSnapshotIdAndValue ''_innerReferencePath''
     \<lparr>snap_ref = \<lparr>ref_toString = ''users/u1/profile/p1'', ref_root_toString = ''users'',
                  ref_ops = []\<rparr>,
      snap_key = ''p1'', snap_val = JObj []\<rparr> =
     Inr [(''id'', JStr ''p1''), (''_innerReferencePath'', JStr ''u1/profile'')] \<and>
   mergeSnapshotIdAndValue ''_innerReferencePath''
     (example_snapshot ''users/u1/profile/p1'' ''p1'' (JObj [])) =
     Inr [(''id'', JStr ''p1''), (''_innerReferencePath'', JStr ''u1/profile'')] \<and>
   mergeSnapshotIdAndValue ''_innerReferencePath''
     (example_snapshot ''users/u1/profile/p1'' ''p1'' (JBool True)) =
     Inl (JsTypeError ''Cannot create property id'')"
  by (simp add: mergeSnapshotIdAndValue_def innerReferencePath_def substring_def
        example_snapshot_def example_child_def)

section \<open>Tracked records\<close>

lemma trackRecord_own_model:
  "m \<noteq> ''__proto__'' \<Longrightarrow>
   trackedRecords (trackRecord w m i r) =
     (trackedRecords w)\<lparr>own_models :=
        (own_models (trackedRecords w))(m \<mapsto> ids_assign Map.empty i (parseFirebaseReferencePath r))\<rparr>"
  by (simp add: trackRecord_def models_assign_def models_assign_in_def models_read_def Let_def)

lemma trackRecord_proto_model:
  "trackedRecords (trackRecord w ''__proto__'' i r) =
     (trackedRecords w)\<lparr>prototype := Some (ids_assign Map.empty i (parseFirebaseReferencePath r))\<rparr>"
  by (simp add: trackRecord_def models_assign_def models_assign_in_def models_read_def Let_def)

lemma trackRecord_frame:
  "promises (trackRecord w m i r) = promises w"
  "listeners (trackRecord w m i r) = listeners w"
  "calls (trackRecord w m i r) = calls w"
  "fastboot (trackRecord w m i r) = fastboot w"
  "innerReferencePathName (trackRecord w m i r) = innerReferencePathName w"
  "uncaught (trackRecord w m i r) = uncaught w"
  "nextPromise (trackRecord w m i r) = nextPromise w"
  by (simp_all add: trackRecord_def Let_def)



text \<open>Tracking \<^verbatim>\<open>posts/2\<close> after \<^verbatim>\<open>posts/1\<close> discards the id \<^verbatim>\<open>1\<close>; the users stay tracked.\<close>

lemma trackRecord_replaces_model_map_example:
  "isTrackingRecordChanges
     (trackRecord (init_world None) ''post'' ''1'' (example_child ''posts/1'')) ''post'' ''1'' =
     Inr True \<and>
   isTrackingRecordChanges
     (trackRecord
        (trackRecord
           (trackRecord (init_world None) ''user'' ''u1'' (example_child ''users/u1''))
           ''post'' ''1'' (example_child ''posts/1''))
        ''post'' ''2'' (example_child ''posts/2'')) ''post'' ''1'' = Inr False \<and>
   isTrackingRecordChanges
     (trackRecord
        (trackRecord
           (trackRecord (init_world None) ''user'' ''u1'' (example_child ''users/u1''))
           ''post'' ''1'' (example_child ''posts/1''))
        ''post'' ''2'' (example_child ''posts/2'')) ''user'' ''u1'' = Inr True"
  by code_simp

text \<open>
  C6. The claim: after \<^verbatim>\<open>trackRecord(modelName, id, ref)\<close> the one id tracked under the model
  is the id just passed. The code assigns \<^verbatim>\<open>trackedRecords[modelName][id]\<close> on a plain
  object. For the id \<^verbatim>\<open>__proto__\<close> the assignment creates no property: the map of the model
  is left empty and \<^verbatim>\<open>isTrackingRecordChanges\<close> answers false for the id just tracked. For
  the id \<^verbatim>\<open>hasOwnProperty\<close> the property shadows the method that \<^verbatim>\<open>isTrackingRecordChanges\<close>
  calls, which raises from then on for every id of the model.
\<close>

theorem trackRecord_does_not_track_proto_id:
  "isTrackingRecordChanges
     (trackRecord (init_world None) ''post'' ''__proto__'' (example_child ''posts/__proto__''))
     ''post'' ''__proto__'' = Inr False \<and>
   own_models
     (trackedRecords
        (trackRecord (init_world None) ''post'' ''__proto__'' (example_child ''posts/__proto__'')))
     ''post'' = Some Map.empty \<and>
   isTrackingRecordChanges
     (trackRecord (init_world None) ''post'' ''hasOwnProperty''
        (example_child ''posts/hasOwnProperty''))
     ''post'' ''hasOwnProperty'' = Inl (JsTypeError ''hasOwnProperty is not a function'') \<and>
   isTrackingRecordChanges
     (trackRecord (init_world None) ''post'' ''hasOwnProperty''
        (example_child ''posts/hasOwnProperty''))
     ''post'' ''1'' = Inl (JsTypeError ''hasOwnProperty is not a function'')"
  by (simp add: trackRecord_own_model isTrackingRecordChanges_def models_hasOwnProperty_def
        ids_hasOwnProperty_def ids_assign_def present_def init_world_def)

section \<open>Create and update\<close>

text \<open>
  C9. \<^verbatim>\<open>createRecord\<close> returns what \<^verbatim>\<open>updateRecord\<close> returns on the same arguments: the same
  promise and the same state, in which the one write pending is the serialized snapshot
  with the completion callback of \<^verbatim>\<open>updateRecord\<close>, so that success and failure are handled
  by the same code.
\<close>

theorem createRecord_is_updateRecord:
  "createRecord E typeModelName snapshot w = updateRecord E typeModelName snapshot w \<and>
   (let p = fst (createRecord E typeModelName snapshot w);
        w1 = snd (createRecord E typeModelName snapshot w);
        completion = UpdateRecordDone p typeModelName snapshot
    in p = nextPromise w \<and>
       promises w1 p = Some Pending \<and>
       pendingWrites w1 =
         pendingWrites w @ [(serialize E snapshot (innerReferencePathName w), completion)] \<and>
       on_complete E completion (Some error) w1 = reject p (JsError error) w1 \<and>
       on_complete E completion None w1 =
         (case listenForRecordChanges w1 typeModelName (snapshot_id snapshot)
                 (buildFirebaseReference E
                    (buildPath E typeModelName (snapshot_id snapshot)
                       (snapshot_adapterOptions snapshot))) of
            Inl e \<Rightarrow> w1\<lparr>uncaught := uncaught w1 @ [e]\<rparr>
          | Inr attached \<Rightarrow> resolve p JUndefined attached))"
  by (simp add: createRecord_def updateRecord_def new_promise_def firebase_update_def Let_def)

section \<open>The attach routine\<close>

lemma listen_untracked:
  "\<not> isInFastBoot w \<Longrightarrow> isTrackingRecordChanges w m i = Inr False \<Longrightarrow>
   listenForRecordChanges w m i r =
     Inr (ref_on r ''value'' (RecordChangesOnValue m i) (Some (RecordChangesOnError m i))
            (trackRecord w m i r))"
  by (simp add: listenForRecordChanges_def)


text \<open>Outside FastBoot an exception of the registry lookup leaves the attach routine.\<close>

lemma listen_raises:
  "\<not> isInFastBoot w \<Longrightarrow> isTrackingRecordChanges w m i = Inl e \<Longrightarrow>
   listenForRecordChanges w m i r = Inl e"
  by (simp add: listenForRecordChanges_def)

lemma listen_frame:
  assumes "listenForRecordChanges w m i r = Inr attached"
  shows "promises attached = promises w"
    and "fastboot attached = fastboot w"
    and "innerReferencePathName attached = innerReferencePathName w"
    and "uncaught attached = uncaught w"
    and "nextPromise attached = nextPromise w"
    and "calls attached =
           calls w @ (if \<not> isInFastBoot w \<and> isTrackingRecordChanges w m i = Inr False
                      then [CallOn r ''value'' (RecordChangesOnValue m i)] else [])"
    and "listeners attached =
           listeners w @ (if \<not> isInFastBoot w \<and> isTrackingRecordChanges w m i = Inr False
                          then [\<lparr>reg_ref = r, reg_event = ''value'',
                                  reg_callback = RecordChangesOnValue m i,
                                  reg_cancel = Some (RecordChangesOnError m i)\<rparr>]
                          else [])"
  using assms
  by (auto simp: listenForRecordChanges_def ref_on_def trackRecord_frame
      split: if_splits sum.splits)

section \<open>Promises settle once\<close>

lemma settle_settled:
  "promises w p = Some st \<Longrightarrow> st \<noteq> Pending \<Longrightarrow> promises (settle q outcome w) p = Some st"
  by (auto simp: settle_def split: option.splits promise_state.splits)

lemma settle_other: "q \<noteq> p \<Longrightarrow> promises (settle q outcome w) p = promises w p"
  by (auto simp: settle_def split: option.splits promise_state.splits)

lemma settle_next: "nextPromise (settle q outcome w) = nextPromise w"
  by (auto simp: settle_def split: option.splits promise_state.splits)

lemma promises_unloadRecord: "promises (unloadRecord w m i) = promises w"
  by (simp add: unloadRecord_def split: option.splits)

lemma nextPromise_unloadRecord: "nextPromise (unloadRecord w m i) = nextPromise w"
  by (simp add: unloadRecord_def split: option.splits)

lemma on_snapshot_settled:
  "promises w p = Some st \<Longrightarrow> st \<noteq> Pending \<Longrightarrow> promises (on_snapshot cb s w) p = Some st"
  by (cases cb)
     (auto simp: resolve_def reject_def settle_settled listen_frame promises_unloadRecord
        ref_off_def Let_def split: sum.splits option.splits)

lemma on_cancel_settled:
  "promises w p = Some st \<Longrightarrow> st \<noteq> Pending \<Longrightarrow> promises (on_cancel cb e w) p = Some st"
  by (cases cb) (auto simp: reject_def settle_settled promises_unloadRecord)

lemma on_complete_settled:
  "promises w p = Some st \<Longrightarrow> st \<noteq> Pending \<Longrightarrow>
   promises (on_complete E cb e w) p = Some st"
  by (cases cb)
     (auto simp: resolve_def reject_def settle_settled listen_frame Let_def
        split: option.splits sum.splits)

lemma deliver_settled:
  "promises w p = Some st \<Longrightarrow> st \<noteq> Pending \<Longrightarrow> promises (deliver E d w) p = Some st"
  by (cases d) (simp_all add: on_snapshot_settled on_cancel_settled on_complete_settled)

text \<open>Whatever is delivered later, a settled promise keeps its outcome.\<close>

lemma deliveries_settled:
  "promises w p = Some st \<Longrightarrow> st \<noteq> Pending \<Longrightarrow>
   promises (fold (deliver E) ds w) p = Some st"
  by (induction ds arbitrary: w) (simp_all add: deliver_settled)

text \<open>
  A promise is touched by the callbacks of its own operation only: a delivery to another
  callback and the start of another operation leave it as it is.
\<close>

lemma on_snapshot_other:
  "callback_promise cb \<noteq> Some p \<Longrightarrow>
   promises (on_snapshot cb s w) p = promises w p \<and>
   nextPromise (on_snapshot cb s w) = nextPromise w"
  by (cases cb)
     (auto simp: resolve_def reject_def settle_other settle_next listen_frame
        promises_unloadRecord nextPromise_unloadRecord ref_off_def Let_def
      split: sum.splits option.splits)

lemma on_cancel_other:
  "callback_promise cb \<noteq> Some p \<Longrightarrow>
   promises (on_cancel cb e w) p = promises w p \<and>
   nextPromise (on_cancel cb e w) = nextPromise w"
  by (cases cb)
     (auto simp: reject_def settle_other settle_next promises_unloadRecord
        nextPromise_unloadRecord)

lemma on_complete_other:
  "callback_promise cb \<noteq> Some p \<Longrightarrow>
   promises (on_complete E cb e w) p = promises w p \<and>
   nextPromise (on_complete E cb e w) = nextPromise w"
  by (cases cb)
     (auto simp: resolve_def reject_def settle_other settle_next listen_frame Let_def
      split: sum.splits option.splits)

lemma run_step_other:
  assumes "step_promise st \<noteq> Some p" and "p < nextPromise w"
  shows "promises (run_step E st w) p = promises w p \<and> p < nextPromise (run_step E st w)"
proof (cases st)
  case (Deliver d)
  then show ?thesis
    using assms
    by (cases d) (simp_all add: on_snapshot_other on_cancel_other on_complete_other)
next
  case (StartFind m i ao)
  then show ?thesis
    using assms by (simp add: findRecord_def new_promise_def ref_on_def Let_def)
next
  case (StartUpdate m snapshot)
  then show ?thesis
    using assms by (simp add: updateRecord_def new_promise_def firebase_update_def Let_def)
next
  case (StartCreate m snapshot)
  then show ?thesis
    using assms
    by (simp add: createRecord_def updateRecord_def new_promise_def firebase_update_def Let_def)
next
  case (StartDelete m snapshot)
  then show ?thesis
    using assms by (simp add: deleteRecord_def new_promise_def firebase_update_def Let_def)
qed

text \<open>
  So the promise of an operation is still pending when the first event of the operation
  arrives, whatever finds, updates, creates and deletes were started and whatever was
  delivered to the callbacks of other operations in between.
\<close>

lemma steps_keep_pending:
  "promises w p = Some Pending \<Longrightarrow> p < nextPromise w \<Longrightarrow>
   list_all (\<lambda>st. step_promise st \<noteq> Some p) steps \<Longrightarrow>
   promises (fold (run_step E) steps w) p = Some Pending \<and>
   p < nextPromise (fold (run_step E) steps w)"
proof (induction steps arbitrary: w)
  case Nil
  then show ?case by simp
next
  case (Cons st steps)
  have "promises (run_step E st w) p = Some Pending \<and> p < nextPromise (run_step E st w)"
    using run_step_other[of st p w E] Cons.prems by simp
  then show ?case
    using Cons.IH[of "run_step E st w"] Cons.prems by simp
qed

section \<open>Find one record\<close>

text \<open>
  C8, as amended. A \<^verbatim>\<open>findRecord\<close> call leaves its promise pending and its one-shot callback
  registered, and the promise stays pending through the finds, updates, creates and deletes
  that are started, and the events that are delivered to the callbacks of other operations,
  before an event of this find arrives. In whatever state the callback is then called: for
  a node whose value is an object, when the registry lookup of \<^verbatim>\<open>listenForRecordChanges\<close>
  completes (as it does in FastBoot, and whenever \<^verbatim>\<open>isTrackingRecordChanges\<close> returns), that
  routine has run (it attaches the continuous listener only outside FastBoot and for a
  record the registry reports untracked), then the one-shot listener is detached, then
  \<^verbatim>\<open>resolve\<close> is called with the normalized payload, which settles a pending promise; for no
  node, \<^verbatim>\<open>reject\<close> is called with the error that names the id and the model; and the cancel
  callback calls \<^verbatim>\<open>reject\<close> with the wrapped remote error. Whatever is delivered later, to
  any callback, a settled promise keeps its outcome.
\<close>

theorem findRecord_outcomes:
  "(let onValue = FindRecordOnValue p modelName ident r;
        notFound = JsError (''Record '' @ ident @ '' for type '' @ modelName @ '' not found'')
    in (snap_val s = JObj obj \<and> listenForRecordChanges w modelName ident r = Inr attached \<longrightarrow>
          (let payload = JObj (set_prop (set_prop obj ''id'' (JStr (snap_key s)))
                                 (innerReferencePathName w)
                                 (JStr (innerReferencePath (snap_ref s))));
               w2 = on_snapshot onValue s w
           in calls attached =
                calls w @ (if \<not> isInFastBoot w \<and>
                              isTrackingRecordChanges w modelName ident = Inr False
                           then [CallOn r ''value'' (RecordChangesOnValue modelName ident)]
                           else []) \<and>
              listeners attached =
                listeners w @ (if \<not> isInFastBoot w \<and>
                                  isTrackingRecordChanges w modelName ident = Inr False
                               then [\<lparr>reg_ref = r, reg_event = ''value'',
                                       reg_callback = RecordChangesOnValue modelName ident,
                                       reg_cancel = Some (RecordChangesOnError modelName ident)\<rparr>]
                               else []) \<and>
              calls w2 = calls attached @ [CallOff r ''value'' onValue, CallResolve p payload] \<and>
              listeners w2 = remove_registration r ''value'' onValue (listeners attached) \<and>
              (promises w p = Some Pending \<longrightarrow>
                 promises (fold (deliver E) later w2) p = Some (Resolved payload)))) \<and>
       (isInFastBoot w \<or> isTrackingRecordChanges w modelName ident = Inr tracked \<longrightarrow>
          (\<exists>completed. listenForRecordChanges w modelName ident r = Inr completed)) \<and>
       (snap_val s = JNull \<longrightarrow>
          calls (on_snapshot onValue s w) = calls w @ [CallReject p notFound] \<and>
          (promises w p = Some Pending \<longrightarrow>
             promises (fold (deliver E) later (on_snapshot onValue s w)) p =
               Some (Rejected notFound))) \<and>
       calls (on_cancel (FindRecordOnError p) error w) =
         calls w @ [CallReject p (JsError error)] \<and>
       (promises w p = Some Pending \<longrightarrow>
          promises (fold (deliver E) later (on_cancel (FindRecordOnError p) error w)) p =
            Some (Rejected (JsError error))) \<and>
       (\<forall>outcome. promises w p = Some outcome \<and> outcome \<noteq> Pending \<longrightarrow>
          promises (fold (deliver E) later w) p = Some outcome)) \<and>
   (let started = findRecord E modelName ident adapterOptions w0;
        p0 = fst started;
        w1 = snd started;
        r0 = buildFirebaseReference E (buildPath E modelName ident adapterOptions)
    in promises w1 p0 = Some Pending \<and>
       listeners w1 = listeners w0 @
         [\<lparr>reg_ref = r0, reg_event = ''value'',
           reg_callback = FindRecordOnValue p0 modelName ident r0,
           reg_cancel = Some (FindRecordOnError p0)\<rparr>] \<and>
       (list_all (\<lambda>st. step_promise st \<noteq> Some p0) steps \<longrightarrow>
          promises (fold (run_step E) steps w1) p0 = Some Pending))"
    (is "(let onValue = _; notFound = _ in
           (?is_object \<longrightarrow> ?found onValue) \<and> ?completes \<and>
           (?is_null \<longrightarrow> ?missing onValue notFound) \<and>
           ?cancel_calls \<and> ?cancelled \<and> ?stays) \<and> ?started")
proof -
  define onValue where "onValue = FindRecordOnValue p modelName ident r"
  define notFound where
    "notFound = JsError (''Record '' @ ident @ '' for type '' @ modelName @ '' not found'')"
  have found: "?found onValue" if obj: "snap_val s = JObj obj"
    and listen: "listenForRecordChanges w modelName ident r = Inr attached"
  proof -
    define payload where "payload = JObj (set_prop (set_prop obj ''id'' (JStr (snap_key s)))
                                   (innerReferencePathName w)
                                   (JStr (innerReferencePath (snap_ref s))))"
    define w2 where "w2 = on_snapshot onValue s w"
    note frame = listen_frame[OF listen]
    have ex: "snapshot_exists s" using obj by (simp add: snapshot_exists_def)
    have inner: "innerReferencePathName (ref_off r ''value'' onValue attached) =
                 innerReferencePathName w"
      by (simp add: ref_off_def frame(3))
    have w2_eq: "w2 = resolve p payload (ref_off r ''value'' onValue attached)"
      unfolding w2_def onValue_def
      using ex listen inner[unfolded onValue_def] mergeSnapshotIdAndValue_JObj[OF obj]
      by (simp add: Let_def payload_def)
    have c2: "calls w2 = calls attached @ [CallOff r ''value'' onValue, CallResolve p payload]"
      by (auto simp: w2_eq resolve_def settle_def ref_off_def
          split: option.splits promise_state.splits)
    have c3: "listeners w2 = remove_registration r ''value'' onValue (listeners attached)"
      by (auto simp: w2_eq resolve_def settle_def ref_off_def
          split: option.splits promise_state.splits)
    have c4: "promises (fold (deliver E) later w2) p = Some (Resolved payload)"
      if "promises w p = Some Pending"
    proof -
      have "promises w2 p = Some (Resolved payload)"
        using that by (simp add: w2_eq resolve_def settle_def ref_off_def frame(1))
      then show ?thesis by (rule deliveries_settled) simp
    qed
    show ?thesis
      using frame(6,7) c2 c3 c4 unfolding Let_def payload_def w2_def by blast
  qed
  have completes: ?completes
    by (auto simp: listenForRecordChanges_def)
  have missing: "?missing onValue notFound" if null: "snap_val s = JNull"
  proof -
    have eq: "on_snapshot onValue s w = reject p notFound w"
      using null by (simp add: onValue_def notFound_def snapshot_exists_def)
    have c: "calls (on_snapshot onValue s w) = calls w @ [CallReject p notFound]"
      by (auto simp: eq reject_def settle_def split: option.splits promise_state.splits)
    have "promises (fold (deliver E) later (on_snapshot onValue s w)) p =
        Some (Rejected notFound)" if "promises w p = Some Pending"
    proof -
      have "promises (on_snapshot onValue s w) p = Some (Rejected notFound)"
        using that by (simp add: eq reject_def settle_def)
      then show ?thesis by (rule deliveries_settled) simp
    qed
    with c show ?thesis by blast
  qed
  have cancel_calls: ?cancel_calls
    by (auto simp: reject_def settle_def split: option.splits promise_state.splits)
  have cancelled: ?cancelled
  proof
    assume "promises w p = Some Pending"
    then have "promises (on_cancel (FindRecordOnError p) error w) p =
        Some (Rejected (JsError error))"
      by (simp add: reject_def settle_def)
    then show "promises (fold (deliver E) later (on_cancel (FindRecordOnError p) error w)) p =
        Some (Rejected (JsError error))"
      by (rule deliveries_settled) simp
  qed
  have stays: ?stays
    by (auto intro: deliveries_settled)
  have started: ?started
  proof -
    define w1 where "w1 = snd (findRecord E modelName ident adapterOptions w0)"
    define p0 where "p0 = fst (findRecord E modelName ident adapterOptions w0)"
    have pending: "promises w1 p0 = Some Pending" and fresh: "p0 < nextPromise w1"
      by (simp_all add: w1_def p0_def findRecord_def new_promise_def ref_on_def Let_def)
    have registered: "listeners w1 = listeners w0 @
        [\<lparr>reg_ref = buildFirebaseReference E (buildPath E modelName ident adapterOptions),
          reg_event = ''value'',
          reg_callback = FindRecordOnValue p0 modelName ident
            (buildFirebaseReference E (buildPath E modelName ident adapterOptions)),
          reg_cancel = Some (FindRecordOnError p0)\<rparr>]"
      by (simp add: w1_def p0_def findRecord_def new_promise_def ref_on_def Let_def)
    have "promises (fold (run_step E) steps w1) p0 = Some Pending"
      if "list_all (\<lambda>st. step_promise st \<noteq> Some p0) steps"
      using steps_keep_pending[OF pending fresh that] by simp
    then show ?thesis
      using pending registered unfolding Let_def w1_def p0_def by blast
  qed
  show ?thesis
    unfolding Let_def
    using found completes missing cancel_calls cancelled stays started
    unfolding onValue_def notFound_def Let_def by blast
qed


text \<open>
  Two finds are under way, of the posts \<^verbatim>\<open>1\<close> and \<^verbatim>\<open>2\<close>, when the first value event arrives
  for the post \<^verbatim>\<open>1\<close>: its promise is resolved and stays so through a later not-found event,
  a later error and the value event of the other find; with a first not-found event, or an
  error, it is rejected.
\<close>

theorem findRecord_outcomes_witness:
  "snap_val (example_record ''1'') = JObj [(''title'', JStr ''x'')] \<and>
   isTrackingRecordChanges two_finds_world ''post'' ''1'' = Inr False \<and>
   list_all (\<lambda>st. step_promise st \<noteq> Some 0)
     [StartFind ''post'' ''2'' None,
      Deliver (Snapshot (FindRecordOnValue 1 ''post'' ''2'' (example_child ''posts/2''))
                 (example_record ''2''))] \<and>
   promises
     (fold (run_step example_collaborators)
        [StartFind ''post'' ''2'' None,
         Deliver (Snapshot (FindRecordOnValue 1 ''post'' ''2'' (example_child ''posts/2''))
                    (example_record ''2''))]
        (snd (findRecord example_collaborators ''post'' ''1'' None (init_world None)))) 0 =
     Some Pending \<and>
   promises two_finds_world 0 = Some Pending \<and>
   promises
     (fold (deliver example_collaborators)
        [Snapshot (FindRecordOnValue 0 ''post'' ''1'' (example_child ''posts/1''))
           (example_snapshot ''posts/1'' ''1'' JNull),
         Cancel (FindRecordOnError 0) ''disconnected'',
         Snapshot (FindRecordOnValue 1 ''post'' ''2'' (example_child ''posts/2''))
           (example_record ''2'')]
        (on_snapshot (FindRecordOnValue 0 ''post'' ''1'' (example_child ''posts/1''))
           (example_record ''1'') two_finds_world)) 0 =
     Some (Resolved (JObj [(''title'', JStr ''x''), (''id'', JStr ''1''),
                           (''_innerReferencePath'', JStr [])])) \<and>
   calls
     (on_snapshot (FindRecordOnValue 0 ''post'' ''1'' (example_child ''posts/1''))
        (example_record ''1'') two_finds_world) =
     [CallOn (example_child ''posts/1'') ''value''
        (FindRecordOnValue 0 ''post'' ''1'' (example_child ''posts/1'')),
      CallOn (example_child ''posts/2'') ''value''
        (FindRecordOnValue 1 ''post'' ''2'' (example_child ''posts/2'')),
      CallOn (example_child ''posts/1'') ''value'' (RecordChangesOnValue ''post'' ''1''),
      CallOff (example_child ''posts/1'') ''value''
        (FindRecordOnValue 0 ''post'' ''1'' (example_child ''posts/1'')),
      CallResolve 0 (JObj [(''title'', JStr ''x''), (''id'', JStr ''1''),
                           (''_innerReferencePath'', JStr [])])] \<and>
   promises
     (fold (deliver example_collaborators)
        [Snapshot (FindRecordOnValue 0 ''post'' ''1'' (example_child ''posts/1''))
           (example_record ''1'')]
        (on_snapshot (FindRecordOnValue 0 ''post'' ''1'' (example_child ''posts/1''))
           (example_snapshot ''posts/1'' ''1'' JNull) two_finds_world)) 0 =
     Some (Rejected (JsError ''Record 1 for type post not found'')) \<and>
   promises
     (on_cancel (FindRecordOnError 0) ''permission_denied'' two_finds_world) 0 =
     Some (Rejected (JsError ''permission_denied''))"
proof -
  have untracked: "\<not> isInFastBoot two_finds_world"
    "isTrackingRecordChanges two_finds_world ''post'' ''1'' = Inr False"
    by code_simp+
  note listen = listen_untracked[OF untracked, of "example_child ''posts/1''"]
  have obj: "snap_val (example_record ''1'') = JObj [(''title'', JStr ''x'')]"
    by code_simp
  have null: "snap_val (example_snapshot ''posts/1'' ''1'' JNull) = JNull"
    by code_simp
  have pending: "promises two_finds_world 0 = Some Pending"
    by code_simp
  note found =
    findRecord_outcomes[where s = "example_record ''1''" and obj = "[(''title'', JStr ''x'')]"
      and w = two_finds_world and modelName = "''post''" and ident = "''1''"
      and r = "example_child ''posts/1''" and p = 0 and E = example_collaborators
      and later = "[Snapshot (FindRecordOnValue 0 ''post'' ''1'' (example_child ''posts/1''))
           (example_snapshot ''posts/1'' ''1'' JNull),
         Cancel (FindRecordOnError 0) ''disconnected'',
         Snapshot (FindRecordOnValue 1 ''post'' ''2'' (example_child ''posts/2''))
           (example_record ''2'')]"
      and error = "''permission_denied''",
      unfolded Let_def, THEN conjunct1, THEN conjunct1, rule_format, OF conjI, OF obj listen]
  note missing =
    findRecord_outcomes[where s = "example_snapshot ''posts/1'' ''1'' JNull"
      and w = two_finds_world and modelName = "''post''" and ident = "''1''"
      and r = "example_child ''posts/1''" and p = 0 and E = example_collaborators
      and later = "[Snapshot (FindRecordOnValue 0 ''post'' ''1'' (example_child ''posts/1''))
           (example_record ''1'')]"
      and error = "''permission_denied''",
      unfolded Let_def, THEN conjunct1, THEN conjunct2, THEN conjunct2, THEN conjunct1,
      rule_format, OF null]
  note cancelled =
    findRecord_outcomes[where w = two_finds_world and p = 0 and later = "[]"
      and error = "''permission_denied''",
      unfolded Let_def, THEN conjunct1, THEN conjunct2, THEN conjunct2, THEN conjunct2,
      THEN conjunct2, THEN conjunct1, rule_format, OF pending]
  have p0: "fst (findRecord example_collaborators ''post'' ''1'' None (init_world None)) = 0"
    by code_simp
  have others: "list_all (\<lambda>st. step_promise st \<noteq> Some 0)
     [StartFind ''post'' ''2'' None,
      Deliver (Snapshot (FindRecordOnValue 1 ''post'' ''2'' (example_child ''posts/2''))
                 (example_record ''2''))]"
    by simp
  note between =
    findRecord_outcomes[where E = example_collaborators and modelName = "''post''"
      and ident = "''1''" and adapterOptions = None and ?w0.0 = "init_world None"
      and steps = "[StartFind ''post'' ''2'' None,
         Deliver (Snapshot (FindRecordOnValue 1 ''post'' ''2'' (example_child ''posts/2''))
                    (example_record ''2''))]",
      unfolded Let_def p0, THEN conjunct2, THEN conjunct2, THEN conjunct2, rule_format,
      OF others]
  show ?thesis
    using found missing cancelled untracked(2) between others
    by code_simp
qed


text \<open>
  C8 as stated fails. In FastBoot a find of an existing post resolves and no continuous
  listener is attached: the only calls are the one-shot listener's \<^verbatim>\<open>on\<close> and \<^verbatim>\<open>off\<close> and the
  \<^verbatim>\<open>resolve\<close>, and no listener is left. A node that exists with a value that is not an
  object (here \<^verbatim>\<open>true\<close>) leaves the promise pending: the normalizer raises before \<^verbatim>\<open>resolve\<close>.
  And after a find of the post with the id \<^verbatim>\<open>hasOwnProperty\<close>, a find of the existing post
  \<^verbatim>\<open>1\<close> leaves its promise pending, attaches no continuous listener and leaves the one-shot
  listener attached: the registry lookup raises.
\<close>

theorem findRecord_outcomes_counterexample:
  "promises
     (findRecord_then_value example_collaborators ''post'' ''1'' None (example_record ''1'')
        (init_world (Some True))) 0 =
     Some (Resolved (JObj [(''title'', JStr ''x''), (''id'', JStr ''1''),
                           (''_innerReferencePath'', JStr [])])) \<and>
   listeners
     (findRecord_then_value example_collaborators ''post'' ''1'' None (example_record ''1'')
        (init_world (Some True))) = [] \<and>
   calls
     (findRecord_then_value example_collaborators ''post'' ''1'' None (example_record ''1'')
        (init_world (Some True))) =
     [CallOn (example_child ''posts/1'') ''value''
        (FindRecordOnValue 0 ''post'' ''1'' (example_child ''posts/1'')),
      CallOff (example_child ''posts/1'') ''value''
        (FindRecordOnValue 0 ''post'' ''1'' (example_child ''posts/1'')),
      CallResolve 0 (JObj [(''title'', JStr ''x''), (''id'', JStr ''1''),
                           (''_innerReferencePath'', JStr [])])] \<and>
   snapshot_exists (example_snapshot ''posts/1'' ''1'' (JBool True)) \<and>
   promises
     (findRecord_then_value example_collaborators ''post'' ''1'' None
        (example_snapshot ''posts/1'' ''1'' (JBool True)) (init_world None)) 0 = Some Pending \<and>
   uncaught
     (findRecord_then_value example_collaborators ''post'' ''1'' None
        (example_snapshot ''posts/1'' ''1'' (JBool True)) (init_world None)) =
     [JsTypeError ''Cannot create property id''] \<and>
   snapshot_exists (example_record ''1'') \<and>
   promises
     (findRecord_then_value example_collaborators ''post'' ''1'' None (example_record ''1'')
        (findRecord_then_value example_collaborators ''post'' ''hasOwnProperty'' None
           (example_record ''hasOwnProperty'') (init_world None))) 1 = Some Pending \<and>
   uncaught
     (findRecord_then_value example_collaborators ''post'' ''1'' None (example_record ''1'')
        (findRecord_then_value example_collaborators ''post'' ''hasOwnProperty'' None
           (example_record ''hasOwnProperty'') (init_world None))) =
     [JsTypeError ''hasOwnProperty is not a function''] \<and>
   continuous_listeners ''post'' ''1''
     (findRecord_then_value example_collaborators ''post'' ''1'' None (example_record ''1'')
        (findRecord_then_value example_collaborators ''post'' ''hasOwnProperty'' None
           (example_record ''hasOwnProperty'') (init_world None))) = [] \<and>
   fired_callbacks (example_child ''posts/1'') ''value''
     (findRecord_then_value example_collaborators ''post'' ''1'' None (example_record ''1'')
        (findRecord_then_value example_collaborators ''post'' ''hasOwnProperty'' None
           (example_record ''hasOwnProperty'') (init_world None))) =
     [FindRecordOnValue 1 ''post'' ''1'' (example_child ''posts/1'')]"
  by code_simp

section \<open>A find that does not find\<close>

text \<open>
  C10. When the one-shot callback of \<^verbatim>\<open>findRecord\<close> gets a snapshot of a node that does not
  exist, in whatever state the adapter is: the only call made is \<^verbatim>\<open>reject\<close> with the
  not-found error, which rejects a pending promise; \<^verbatim>\<open>ref.off\<close> is not called and the
  listeners, hence the callbacks that an event at any reference calls, are as before. The
  callback was registered by \<^verbatim>\<open>findRecord\<close> for the value events of the reference, so after
  the not-found event that follows the call it is still among the callbacks that a value
  event at the reference calls.
\<close>

theorem findRecord_not_found_keeps_listener:
  assumes missing: "\<not> snapshot_exists s"
  shows "(let onValue = FindRecordOnValue p modelName ident r;
              notFound = JsError (''Record '' @ ident @ '' for type '' @ modelName @ '' not found'');
              w2 = on_snapshot onValue s w
          in calls w2 = calls w @ [CallReject p notFound] \<and>
             listeners w2 = listeners w \<and>
             fired_callbacks anyRef anyEvent w2 = fired_callbacks anyRef anyEvent w \<and>
             trackedRecords w2 = trackedRecords w \<and>
             uncaught w2 = uncaught w \<and>
             (promises w p = Some Pending \<longrightarrow> promises w2 p = Some (Rejected notFound))) \<and>
         (let started = findRecord E modelName ident adapterOptions w0;
              p0 = fst started;
              w1 = snd started;
              r0 = buildFirebaseReference E (buildPath E modelName ident adapterOptions);
              onValue0 = FindRecordOnValue p0 modelName ident r0
          in promises w1 p0 = Some Pending \<and>
             onValue0 \<in> set (fired_callbacks r0 ''value'' w1) \<and>
             onValue0 \<in> set (fired_callbacks r0 ''value'' (on_snapshot onValue0 s w1)) \<and>
             onValue0 \<in> set (fired_callbacks r0 ''value''
                                (findRecord_then_value E modelName ident adapterOptions s w0)))"
proof -
  define onValue where "onValue = FindRecordOnValue p modelName ident r"
  define notFound where
    "notFound = JsError (''Record '' @ ident @ '' for type '' @ modelName @ '' not found'')"
  have eq: "on_snapshot (FindRecordOnValue q modelName ident r') s v = reject q notFound v"
    for q r' v
    using missing by (simp add: notFound_def)
  have frame: "calls (reject q e v) = calls v @ [CallReject q e]"
    "listeners (reject q e v) = listeners v"
    "trackedRecords (reject q e v) = trackedRecords v"
    "uncaught (reject q e v) = uncaught v"
    "promises v q = Some Pending \<Longrightarrow> promises (reject q e v) q = Some (Rejected e)"
    for q e v
    by (auto simp: reject_def settle_def split: option.splits promise_state.splits)
  have general: "calls (on_snapshot onValue s w) = calls w @ [CallReject p notFound] \<and>
      listeners (on_snapshot onValue s w) = listeners w \<and>
      fired_callbacks anyRef anyEvent (on_snapshot onValue s w) =
        fired_callbacks anyRef anyEvent w \<and>
      trackedRecords (on_snapshot onValue s w) = trackedRecords w \<and>
      uncaught (on_snapshot onValue s w) = uncaught w \<and>
      (promises w p = Some Pending \<longrightarrow>
         promises (on_snapshot onValue s w) p = Some (Rejected notFound))"
    unfolding onValue_def eq by (simp add: frame fired_callbacks_def)
  define started where "started = findRecord E modelName ident adapterOptions w0"
  define r0 where "r0 = buildFirebaseReference E (buildPath E modelName ident adapterOptions)"
  define onValue0 where "onValue0 = FindRecordOnValue (fst started) modelName ident r0"
  have pending: "promises (snd started) (fst started) = Some Pending"
    by (simp add: started_def findRecord_def new_promise_def ref_on_def Let_def)
  have registered: "onValue0 \<in> set (fired_callbacks r0 ''value'' (snd started))"
    by (simp add: onValue0_def started_def r0_def findRecord_def new_promise_def ref_on_def
          Let_def fired_callbacks_def)
  have kept: "onValue0 \<in> set (fired_callbacks r0 ''value'' (on_snapshot onValue0 s (snd started)))"
    using registered unfolding onValue0_def eq by (simp add: frame fired_callbacks_def)
  have after: "findRecord_then_value E modelName ident adapterOptions s w0 =
      on_snapshot onValue0 s (snd started)"
    by (simp add: findRecord_then_value_def started_def onValue0_def r0_def Let_def
          case_prod_beta)
  show ?thesis
    using general pending registered kept
    unfolding after Let_def onValue_def notFound_def started_def r0_def onValue0_def
    by (simp add: started_def[symmetric])
qed

text \<open>
  Two finds are under way when the first value event of the post \<^verbatim>\<open>1\<close> shows no node: its
  promise is rejected, the two one-shot callbacks stay attached, and the value event that
  follows the post's creation calls the callback again (it then attaches the continuous
  listener, detaches itself and calls \<^verbatim>\<open>resolve\<close> on the rejected promise, which stays
  rejected).
\<close>

theorem findRecord_not_found_keeps_listener_witness:
  "\<not> snapshot_exists (example_snapshot ''posts/1'' ''1'' JNull) \<and>
   promises two_finds_world 0 = Some Pending \<and>
   promises
     (on_snapshot (FindRecordOnValue 0 ''post'' ''1'' (example_child ''posts/1''))
        (example_snapshot ''posts/1'' ''1'' JNull) two_finds_world) 0 =
     Some (Rejected (JsError ''Record 1 for type post not found'')) \<and>
   map reg_callback
     (listeners
        (on_snapshot (FindRecordOnValue 0 ''post'' ''1'' (example_child ''posts/1''))
           (example_snapshot ''posts/1'' ''1'' JNull) two_finds_world)) =
     [FindRecordOnValue 0 ''post'' ''1'' (example_child ''posts/1''),
      FindRecordOnValue 1 ''post'' ''2'' (example_child ''posts/2'')] \<and>
   fired_callbacks (example_child ''posts/1'') ''value''
     (findRecord_then_value example_collaborators ''post'' ''1'' None
        (example_snapshot ''posts/1'' ''1'' JNull) (init_world None)) =
     [FindRecordOnValue 0 ''post'' ''1'' (example_child ''posts/1'')] \<and>
   calls
     (fire (example_child ''posts/1'') ''value'' (example_record ''1'')
        (findRecord_then_value example_collaborators ''post'' ''1'' None
           (example_snapshot ''posts/1'' ''1'' JNull) (init_world None))) =
     [CallOn (example_child ''posts/1'') ''value''
        (FindRecordOnValue 0 ''post'' ''1'' (example_child ''posts/1'')),
      CallReject 0 (JsError ''Record 1 for type post not found''),
      CallOn (example_child ''posts/1'') ''value'' (RecordChangesOnValue ''post'' ''1''),
      CallOff (example_child ''posts/1'') ''value''
        (FindRecordOnValue 0 ''post'' ''1'' (example_child ''posts/1'')),
      CallResolve 0 (JObj [(''title'', JStr ''x''), (''id'', JStr ''1''),
                           (''_innerReferencePath'', JStr [])])] \<and>
   promises
     (fire (example_child ''posts/1'') ''value'' (example_record ''1'')
        (findRecord_then_value example_collaborators ''post'' ''1'' None
           (example_snapshot ''posts/1'' ''1'' JNull) (init_world None))) 0 =
     Some (Rejected (JsError ''Record 1 for type post not found''))"
proof -
  have missing: "\<not> snapshot_exists (example_snapshot ''posts/1'' ''1'' JNull)"
    by code_simp
  have pending: "promises two_finds_world 0 = Some Pending"
    by code_simp
  note general =
    findRecord_not_found_keeps_listener
      [OF missing, where p = 0 and modelName = "''post''" and ident = "''1''"
        and r = "example_child ''posts/1''" and w = two_finds_world
        and anyRef = "example_child ''posts/1''" and anyEvent = "''value''"
        and E = example_collaborators and adapterOptions = None and ?w0.0 = "init_world None",
       unfolded Let_def]
  note rejected = general[THEN conjunct1, THEN conjunct2, THEN conjunct2, THEN conjunct2,
      THEN conjunct2, THEN conjunct2, rule_format, OF pending]
  show ?thesis
    using general[THEN conjunct1, THEN conjunct2, THEN conjunct1] rejected
      general[THEN conjunct2]
    by code_simp
qed

section \<open>Repeated finds of one record\<close>
















section \<open>Tracked queries\<close>

text \<open>
  Outside FastBoot, tracking under a cache identifier that has an entry calls \<^verbatim>\<open>off\<close> for
  the two child listeners that the tracked array's \<^verbatim>\<open>firebase\<close> property holds at that
  moment, and then stores the new array.
\<close>

lemma trackQuery_detaches_then_stores:
  assumes "\<not> isInFastBoot w"
      and "trackedQueries w cacheId = Some previous"
      and "arrays w previous = Some a"
      and "ra_firebase a = Some (r, onChildAdded, onChildRemoved)"
  shows "trackQuery cacheId recordArray w =
           Inr ((ref_off r ''child_removed'' onChildRemoved
                   (ref_off r ''child_added'' onChildAdded w))
                \<lparr>trackedQueries := (trackedQueries w)(cacheId \<mapsto> recordArray)\<rparr>)"
    and "calls (ref_off r ''child_removed'' onChildRemoved
                  (ref_off r ''child_added'' onChildAdded w)) =
           calls w @ [CallOff r ''child_added'' onChildAdded,
                      CallOff r ''child_removed'' onChildRemoved]"
  using assms
  by (simp_all add: trackQuery_def extension_off_def ref_off_def isInFastBoot_def
        split: option.splits)

lemma trackQuery_first_entry:
  "\<not> isInFastBoot w \<Longrightarrow> trackedQueries w cacheId = None \<Longrightarrow>
   trackQuery cacheId recordArray w =
     Inr (w\<lparr>trackedQueries := (trackedQueries w)(cacheId \<mapsto> recordArray)\<rparr>)"
  by (simp add: trackQuery_def isInFastBoot_def split: option.splits)

text \<open>
  C5. The claim: tracking a query under a cache identifier that has an entry detaches the
  previous entry's child listeners before the new array is stored, so that one cache
  identifier never has more than one live subscription. The code calls the \<^verbatim>\<open>off\<close> closure
  that the tracked array holds when \<^verbatim>\<open>_trackQuery\<close> runs. When the tracked array \<^verbatim>\<open>0\<close> is
  refreshed, \<^verbatim>\<open>_setupRecordExtensions\<close> has just overwritten that closure with one over the
  new listeners (closure number \<^verbatim>\<open>1\<close>): these are detached and the first ones (number \<^verbatim>\<open>0\<close>)
  stay. A later query under the same identifier with the array \<^verbatim>\<open>1\<close> again detaches number
  \<^verbatim>\<open>1\<close>; the array \<^verbatim>\<open>0\<close>, no longer tracked, and the array \<^verbatim>\<open>1\<close> both keep live listeners.
\<close>

theorem trackQuery_leaves_replaced_array_listening:
  "(case and_then
           (and_then
              (query_keep_live ''post'' JNull (empty_query\<lparr>q_cacheId := Some (JStr ''c'')\<rparr>) 0
                 (example_child ''posts/'') two_arrays_world)
              (query_keep_live ''post'' JNull (empty_query\<lparr>q_cacheId := Some (JStr ''c'')\<rparr>) 0
                 (example_child ''posts/'')))
           (query_keep_live ''post'' JNull (empty_query\<lparr>q_cacheId := Some (JStr ''c'')\<rparr>) 1
              (example_child ''posts/'')) of
      Inl e \<Rightarrow> False
    | Inr w \<Rightarrow>
        trackedQueries w ''c'' = Some 1 \<and>
        live_child_listeners 0 w =
          [QueryOnChildAdded 0 ''post'' JNull 0, QueryOnChildRemoved 0 0] \<and>
        live_child_listeners 1 w =
          [QueryOnChildAdded 2 ''post'' JNull 1, QueryOnChildRemoved 2 1] \<and>
        filter (\<lambda>c. case c of CallOff r event cb \<Rightarrow> True | _ \<Rightarrow> False) (calls w) =
          [CallOff (example_child ''posts/'') ''child_added'' (QueryOnChildAdded 1 ''post'' JNull 0),
           CallOff (example_child ''posts/'') ''child_removed'' (QueryOnChildRemoved 1 0),
           CallOff (example_child ''posts/'') ''child_added'' (QueryOnChildAdded 1 ''post'' JNull 0),
           CallOff (example_child ''posts/'') ''child_removed'' (QueryOnChildRemoved 1 0)])"
  by code_simp



end
